theory Spec2Isabelle
  imports Main "HOL-Library.Sublist"
begin

section \<open>JavaScript values\<close>

text \<open>
  The values the client inspects without knowing their type: the parsed body of a
  response (\<^verbatim>\<open>await response.json()\<close>) and a thrown value that is not an \<^verbatim>\<open>Error\<close>. They
  are modelled by a datatype of JavaScript data values. A finite number is carried as an
  integer: the client only ever tests a number for being zero or \<^verbatim>\<open>NaN\<close>. An object is the
  list of its own properties. (The \<^verbatim>\<open>body?: unknown\<close> argument of the verb methods is
  modelled apart, see below.)
\<close>

datatype number = NaN | Finite int

datatype jsval =
    JUndefined
  | JNull
  | JBoolean bool
  | JNumber number
  | JString string
  | JArray "jsval list"
  | JObject "(string \<times> jsval) list"

text \<open>The conversion to a boolean that \<^verbatim>\<open>x ? a : b\<close>, \<^verbatim>\<open>if (x)\<close> and \<^verbatim>\<open>x || y\<close> apply.\<close>

fun truthy :: "jsval \<Rightarrow> bool" where
  "truthy JUndefined = False"
| "truthy JNull = False"
| "truthy (JBoolean b) = b"
| "truthy (JNumber NaN) = False"
| "truthy (JNumber (Finite i)) = (i \<noteq> 0)"
| "truthy (JString s) = (s \<noteq> [])"
| "truthy (JArray xs) = True"
| "truthy (JObject kvs) = True"

text \<open>\<^verbatim>\<open>typeof data === 'object' && data !== null\<close>: arrays and objects.\<close>

fun is_object :: "jsval \<Rightarrow> bool" where
  "is_object (JArray xs) = True"
| "is_object (JObject kvs) = True"
| "is_object v = False"

text \<open>\<^verbatim>\<open>key in data\<close>, for the keys the client asks about (none of them is a property
  of an array or of the prototype of objects).\<close>

fun has_key :: "string \<Rightarrow> jsval \<Rightarrow> bool" where
  "has_key k (JObject kvs) = (k \<in> set (map fst kvs))"
| "has_key k v = False"

text \<open>\<^verbatim>\<open>data.key\<close>: a property that is not there reads as \<^verbatim>\<open>undefined\<close>.\<close>

fun get_prop :: "jsval \<Rightarrow> string \<Rightarrow> jsval" where
  "get_prop (JObject kvs) k = (case map_of kvs k of None \<Rightarrow> JUndefined | Some v \<Rightarrow> v)"
| "get_prop v k = JUndefined"

section \<open>Strings\<close>

text \<open>\<^verbatim>\<open>s.includes(sub)\<close>: \<open>sub\<close> occurs in \<open>s\<close> as a contiguous run.\<close>

fun str_includes :: "string \<Rightarrow> string \<Rightarrow> bool" where
  "str_includes [] sub = (sub = [])"
| "str_includes (c # cs) sub = (prefix sub (c # cs) \<or> str_includes cs sub)"

text \<open>\<^verbatim>\<open>s.replace(/\/$/, '')\<close>: the pattern matches a slash at the very end only.\<close>

definition strip_trailing_slash :: "string \<Rightarrow> string" where
  "strip_trailing_slash s = (if s \<noteq> [] \<and> last s = CHR ''/'' then butlast s else s)"

text \<open>The decimal text of a natural number, as a template literal prints it.\<close>

fun decimal :: "nat \<Rightarrow> string" where
  "decimal n = (if n < 10 then [''0123456789'' ! n]
                else decimal (n div 10) @ [''0123456789'' ! (n mod 10)])"

declare decimal.simps [simp del]

section \<open>Configuration and token state\<close>

type_synonym headers = "string \<rightharpoonup> string"

record ClientConfig =
  baseURL :: string
  timeout :: "nat option"
  headers :: "headers option"

record RequestOptions =
  timeout :: "nat option"
  headers :: "headers option"

text \<open>\<^verbatim>\<open>RequestInit & RequestOptions\<close>: the fields of it that the client sets or reads.\<close>

record RequestInit = RequestOptions +
  http_method :: "string option"
  body :: "string option"

record BaseClient =
  baseURL :: string
  timeout :: nat
  defaultHeaders :: headers
  token :: "string option"
  refreshToken :: "string option"

text \<open>\<^verbatim>\<open>...h\<close> in an object literal: an undefined operand contributes nothing.\<close>

definition spread :: "headers option \<Rightarrow> headers" where
  "spread h = (case h of None \<Rightarrow> Map.empty | Some m \<Rightarrow> m)"

text \<open>\<^verbatim>\<open>t || d\<close> on an optional number: undefined and zero both give the default.\<close>

definition or_default :: "nat option \<Rightarrow> nat \<Rightarrow> nat" where
  "or_default t d = (case t of None \<Rightarrow> d | Some n \<Rightarrow> if n = 0 then d else n)"

definition new_BaseClient :: "ClientConfig \<Rightarrow> BaseClient" where
  "new_BaseClient config =
     \<lparr> baseURL = strip_trailing_slash (ClientConfig.baseURL config),
       timeout = or_default (ClientConfig.timeout config) 10000,
       defaultHeaders = [''Content-Type'' \<mapsto> ''application/json''] ++ spread (ClientConfig.headers config),
       token = None,
       refreshToken = None \<rparr>"

definition setToken :: "BaseClient \<Rightarrow> string \<Rightarrow> BaseClient" where
  "setToken c t = c\<lparr>token := Some t\<rparr>"

definition clearToken :: "BaseClient \<Rightarrow> BaseClient" where
  "clearToken c = c\<lparr>token := None\<rparr>"

definition getToken :: "BaseClient \<Rightarrow> string option" where
  "getToken c = token c"

definition setRefreshToken :: "BaseClient \<Rightarrow> string \<Rightarrow> BaseClient" where
  "setRefreshToken c t = c\<lparr>refreshToken := Some t\<rparr>"

definition getRefreshToken :: "BaseClient \<Rightarrow> string option" where
  "getRefreshToken c = refreshToken c"

definition clearRefreshToken :: "BaseClient \<Rightarrow> BaseClient" where
  "clearRefreshToken c = c\<lparr>refreshToken := None\<rparr>"

section \<open>Errors, responses and the network\<close>

text \<open>
  What a \<^verbatim>\<open>throw\<close> can carry, in the three classes the client tells apart with
  \<^verbatim>\<open>instanceof\<close>: its own \<^verbatim>\<open>RendevoAPIError\<close> (status code and response payload; its
  message is the payload's), any other \<^verbatim>\<open>Error\<close> (name and message), and a value that is
  not an \<^verbatim>\<open>Error\<close>.
\<close>

datatype thrown =
    RendevoAPIError nat jsval
  | Error string string
  | NonError jsval

text \<open>
  The parts of a fetch \<^verbatim>\<open>Response\<close> the client reads: \<^verbatim>\<open>status\<close>,
  \<^verbatim>\<open>headers.get('content-type')\<close> (null when the header is missing) and the result of
  \<^verbatim>\<open>await response.json()\<close>, which throws when the body is not JSON text.
  \<^verbatim>\<open>response.ok\<close> is, by the Fetch standard, the status being in 200..299.
\<close>

record Response =
  status :: nat
  content_type :: "string option"
  json :: "thrown + jsval"

definition ok :: "Response \<Rightarrow> bool" where
  "ok response = (200 \<le> status response \<and> status response \<le> 299)"

datatype fetch_outcome = Resolved Response | Rejected thrown

text \<open>
  The arguments of one call of \<^verbatim>\<open>fetch\<close>: the address, and of the init object
  the method, the body text and the merged headers (\<^verbatim>\<open>redirect\<close> is always \<^verbatim>\<open>'follow'\<close>,
  \<^verbatim>\<open>signal\<close> belongs to the attempt's timer).
\<close>

record FetchCall =
  url :: string
  fetch_method :: "string option"
  fetch_body :: "string option"
  fetch_headers :: headers

text \<open>
  The surroundings of one request: the three markers of a test run, what the network
  answers to the n-th call of \<^verbatim>\<open>fetch\<close> (a timer that fires shows as a rejection with
  an \<^verbatim>\<open>AbortError\<close>), and the text of \<^verbatim>\<open>new Date().toISOString()\<close> during the n-th attempt.
\<close>

record Env =
  NODE_ENV :: "string option"
  VITEST :: "string option"
  vitest_global :: bool
  fetch :: "nat \<Rightarrow> FetchCall \<Rightarrow> fetch_outcome"
  now :: "nat \<Rightarrow> string"

definition isTestEnv :: "Env \<Rightarrow> bool" where
  "isTestEnv env = (NODE_ENV env = Some ''test'' \<or> VITEST env = Some ''true'' \<or> vitest_global env)"

text \<open>What the client observes itself doing during a request, in order.\<close>

datatype event = Fetch FetchCall | Delay nat

fun fetch_calls :: "event list \<Rightarrow> FetchCall list" where
  "fetch_calls [] = []"
| "fetch_calls (Fetch call # evs) = call # fetch_calls evs"
| "fetch_calls (Delay ms # evs) = fetch_calls evs"

fun delays :: "event list \<Rightarrow> nat list" where
  "delays [] = []"
| "delays (Fetch call # evs) = delays evs"
| "delays (Delay ms # evs) = ms # delays evs"

definition attempts :: "event list \<Rightarrow> nat" where
  "attempts evs = length (fetch_calls evs)"

section \<open>Retry classification\<close>

fun isRetryableError :: "thrown \<Rightarrow> bool" where
  "isRetryableError (RendevoAPIError statusCode response) = (statusCode \<ge> 500)"
| "isRetryableError (Error name message) =
     (str_includes message ''Network error'' \<or>
      str_includes message ''fetch failed'' \<or>
      str_includes message ''ECONNREFUSED'')"
| "isRetryableError (NonError v) = False"

section \<open>A single attempt\<close>

text \<open>Header assembly: defaults, then the per-call headers, then the token if it is truthy.\<close>

definition request_headers :: "BaseClient \<Rightarrow> RequestInit \<Rightarrow> headers" where
  "request_headers c options =
     (let headers = defaultHeaders c ++ spread (RequestOptions.headers options)
      in case token c of
           None \<Rightarrow> headers
         | Some t \<Rightarrow> if t \<noteq> [] then headers(''Authorization'' \<mapsto> ''Bearer '' @ t) else headers)"

definition fetch_call :: "BaseClient \<Rightarrow> string \<Rightarrow> RequestInit \<Rightarrow> FetchCall" where
  "fetch_call c endpoint options =
     \<lparr> url = BaseClient.baseURL c @ endpoint,
       fetch_method = http_method options,
       fetch_body = body options,
       fetch_headers = request_headers c options \<rparr>"

text \<open>\<^verbatim>\<open>options.timeout || this.timeout\<close>\<close>

definition timeout_used :: "BaseClient \<Rightarrow> RequestInit \<Rightarrow> nat" where
  "timeout_used c options = or_default (RequestOptions.timeout options) (BaseClient.timeout c)"

text \<open>\<^verbatim>\<open>options.method || 'GET'\<close>\<close>

definition method_or_GET :: "RequestInit \<Rightarrow> string" where
  "method_or_GET options = (case http_method options of None \<Rightarrow> ''GET'' | Some m \<Rightarrow> if m \<noteq> [] then m else ''GET'')"

text \<open>\<^verbatim>\<open>contentType?.includes('application/json')\<close>, as a condition.\<close>

definition is_json_content_type :: "string option \<Rightarrow> bool" where
  "is_json_content_type contentType =
     (case contentType of None \<Rightarrow> False | Some ct \<Rightarrow> str_includes ct ''application/json'')"

text \<open>\<^verbatim>\<open>contentType || 'unknown'\<close>\<close>

definition content_type_or_unknown :: "string option \<Rightarrow> string" where
  "content_type_or_unknown contentType =
     (case contentType of None \<Rightarrow> ''unknown'' | Some ct \<Rightarrow> if ct \<noteq> [] then ct else ''unknown'')"

definition error_shaped :: "jsval \<Rightarrow> bool" where
  "error_shaped data = (is_object data \<and> has_key ''message'' data \<and> has_key ''statusCode'' data)"

definition envelope_shaped :: "jsval \<Rightarrow> bool" where
  "envelope_shaped data = (is_object data \<and> has_key ''data'' data \<and> has_key ''success'' data)"

definition synthesized_payload :: "nat \<Rightarrow> string \<Rightarrow> string \<Rightarrow> RequestInit \<Rightarrow> jsval \<Rightarrow> jsval" where
  "synthesized_payload st timestamp endpoint options data =
     JObject [(''success'', JBoolean False),
              (''statusCode'', JNumber (Finite (int st))),
              (''timestamp'', JString timestamp),
              (''path'', JString endpoint),
              (''method'', JString (method_or_GET options)),
              (''message'', JString (case data of JString s \<Rightarrow> s | _ \<Rightarrow> ''An error occurred''))]"

definition wrap_body :: "string \<Rightarrow> jsval \<Rightarrow> jsval" where
  "wrap_body timestamp data =
     JObject [(''success'', JBoolean True), (''data'', data), (''timestamp'', JString timestamp)]"

text \<open>The \<^verbatim>\<open>try\<close> block of \<^verbatim>\<open>executeRequest\<close>, from the settled \<^verbatim>\<open>fetch\<close> on.\<close>

definition try_block ::
  "string \<Rightarrow> string \<Rightarrow> RequestInit \<Rightarrow> fetch_outcome \<Rightarrow> thrown + jsval" where
  "try_block timestamp endpoint options outcome =
     (case outcome of
        Rejected error \<Rightarrow> Inl error
      | Resolved response \<Rightarrow>
          if \<not> is_json_content_type (content_type response) then
            Inl (Error ''Error'' (''Invalid response format: expected JSON but got '' @
                                   content_type_or_unknown (content_type response)))
          else
            (case json response of
               Inl error \<Rightarrow> Inl error
             | Inr data \<Rightarrow>
                 if \<not> ok response then
                   (if error_shaped data then Inl (RendevoAPIError (status response) data)
                    else Inl (RendevoAPIError (status response)
                                (synthesized_payload (status response) timestamp endpoint options data)))
                 else if envelope_shaped data then Inr data
                 else Inr (wrap_body timestamp data)))"

text \<open>The \<^verbatim>\<open>catch\<close> block of \<^verbatim>\<open>executeRequest\<close>: what is thrown on for what was caught.\<close>

definition catch_block :: "BaseClient \<Rightarrow> string \<Rightarrow> RequestInit \<Rightarrow> thrown \<Rightarrow> thrown" where
  "catch_block c endpoint options error =
     (case error of
        RendevoAPIError statusCode response \<Rightarrow> RendevoAPIError statusCode response
      | Error name message \<Rightarrow>
          if name = ''AbortError'' then
            Error ''Error'' (''Request timeout: The request to '' @ endpoint @
                             '' took longer than '' @ decimal (timeout_used c options) @ ''ms'')
          else if str_includes message ''CORS'' \<or> str_includes message ''Network request failed'' then
            Error ''Error'' (''Network error: Unable to reach '' @ BaseClient.baseURL c @
                             ''. This may be due to CORS policy or network connectivity issues.'')
          else Error name message
      | NonError v \<Rightarrow> Error ''Error'' ''An unexpected error occurred'')"

definition executeRequest ::
  "BaseClient \<Rightarrow> Env \<Rightarrow> nat \<Rightarrow> string \<Rightarrow> RequestInit \<Rightarrow> thrown + jsval" where
  "executeRequest c env n endpoint options =
     (case try_block (now env n) endpoint options (fetch env n (fetch_call c endpoint options)) of
        Inl error \<Rightarrow> Inl (catch_block c endpoint options error)
      | Inr response \<Rightarrow> Inr response)"

section \<open>The retry loop\<close>

definition maxRetries :: nat where
  "maxRetries = 3"

text \<open>\<^verbatim>\<open>lastError || new Error('Request failed after retries')\<close>\<close>

fun lastError_or_new :: "thrown option \<Rightarrow> thrown" where
  "lastError_or_new None = Error ''Error'' ''Request failed after retries''"
| "lastError_or_new (Some (NonError v)) =
     (if truthy v then NonError v else Error ''Error'' ''Request failed after retries'')"
| "lastError_or_new (Some e) = e"

function retry_loop ::
  "BaseClient \<Rightarrow> Env \<Rightarrow> string \<Rightarrow> RequestInit \<Rightarrow> thrown option \<Rightarrow> nat \<Rightarrow> (thrown + jsval) \<times> event list" where
  "retry_loop c env endpoint options lastError attempt =
     (if attempt < maxRetries then
        (case executeRequest c env attempt endpoint options of
           Inr response \<Rightarrow> (Inr response, [Fetch (fetch_call c endpoint options)])
         | Inl error \<Rightarrow>
             if attempt = maxRetries - 1 \<or> \<not> isRetryableError error then
               (Inl error, [Fetch (fetch_call c endpoint options)])
             else
               (let (result, evs) = retry_loop c env endpoint options (Some error) (attempt + 1)
                in (result, Fetch (fetch_call c endpoint options) # Delay (2 ^ attempt * 1000) # evs)))
      else (Inl (lastError_or_new lastError), []))"
  by pat_completeness auto
termination
  by (relation "measure (\<lambda>(c, env, endpoint, options, lastError, attempt). maxRetries - attempt)") auto

declare retry_loop.simps [simp del]

definition request ::
  "BaseClient \<Rightarrow> Env \<Rightarrow> string \<Rightarrow> RequestInit \<Rightarrow> (thrown + jsval) \<times> event list" where
  "request c env endpoint options =
     (if isTestEnv env then
        (executeRequest c env 0 endpoint options, [Fetch (fetch_call c endpoint options)])
      else retry_loop c env endpoint options None 0)"

section \<open>The body argument\<close>

text \<open>
  The verb methods take \<^verbatim>\<open>body?: unknown\<close> and do two things with it: they test it
  (\<^verbatim>\<open>body ? ... : undefined\<close>) and, if the test succeeds, hand it to
  \<^verbatim>\<open>JSON.stringify\<close>. Both are the platform's doing, so an argument is modelled by what
  the platform answers about it: whether it converts to true, and what
  \<^verbatim>\<open>JSON.stringify\<close> makes of it, which is a text, \<^verbatim>\<open>undefined\<close> or a throw. Every
  JavaScript value, of whatever type, is such a pair.
\<close>

record BodyArgument =
  ToBoolean :: bool
  JSON_stringify :: "thrown + string option"

section \<open>Verb methods\<close>

text \<open>
  \<^verbatim>\<open>{ method: m, body: b, ...options }\<close> with \<^verbatim>\<open>options?: RequestOptions\<close>: the options
  type has a timeout and headers only, so the method and the body stay as given.
\<close>

definition verb_init :: "string \<Rightarrow> string option \<Rightarrow> RequestOptions option \<Rightarrow> RequestInit" where
  "verb_init m b options =
     \<lparr> RequestOptions.timeout = (case options of None \<Rightarrow> None | Some opt \<Rightarrow> RequestOptions.timeout opt),
       RequestOptions.headers = (case options of None \<Rightarrow> None | Some opt \<Rightarrow> RequestOptions.headers opt),
       http_method = Some m,
       body = b \<rparr>"

text \<open>
  \<^verbatim>\<open>body ? JSON.stringify(body) : undefined\<close>. The expression is evaluated while the
  argument of \<^verbatim>\<open>this.request\<close> is built, so a throw of \<^verbatim>\<open>JSON.stringify\<close> ends the verb
  method before any request is made.
\<close>

definition body_text :: "BodyArgument \<Rightarrow> thrown + string option" where
  "body_text b = (if ToBoolean b then JSON_stringify b else Inr None)"

text \<open>\<^verbatim>\<open>return response.data\<close> after the awaited request; a throw passes through.\<close>

definition return_data :: "(thrown + jsval) \<times> event list \<Rightarrow> (thrown + jsval) \<times> event list" where
  "return_data r =
     (case r of
        (Inl error, evs) \<Rightarrow> (Inl error, evs)
      | (Inr response, evs) \<Rightarrow> (Inr (get_prop response ''data''), evs))"

definition get ::
  "BaseClient \<Rightarrow> Env \<Rightarrow> string \<Rightarrow> RequestOptions option \<Rightarrow> (thrown + jsval) \<times> event list" where
  "get c env endpoint options = return_data (request c env endpoint (verb_init ''GET'' None options))"

definition post ::
  "BaseClient \<Rightarrow> Env \<Rightarrow> string \<Rightarrow> BodyArgument \<Rightarrow> RequestOptions option \<Rightarrow> (thrown + jsval) \<times> event list" where
  "post c env endpoint b options =
     (case body_text b of
        Inl error \<Rightarrow> (Inl error, [])
      | Inr t \<Rightarrow> return_data (request c env endpoint (verb_init ''POST'' t options)))"

definition patch ::
  "BaseClient \<Rightarrow> Env \<Rightarrow> string \<Rightarrow> BodyArgument \<Rightarrow> RequestOptions option \<Rightarrow> (thrown + jsval) \<times> event list" where
  "patch c env endpoint b options =
     (case body_text b of
        Inl error \<Rightarrow> (Inl error, [])
      | Inr t \<Rightarrow> return_data (request c env endpoint (verb_init ''PATCH'' t options)))"

definition put ::
  "BaseClient \<Rightarrow> Env \<Rightarrow> string \<Rightarrow> BodyArgument \<Rightarrow> RequestOptions option \<Rightarrow> (thrown + jsval) \<times> event list" where
  "put c env endpoint b options =
     (case body_text b of
        Inl error \<Rightarrow> (Inl error, [])
      | Inr t \<Rightarrow> return_data (request c env endpoint (verb_init ''PUT'' t options)))"

definition delete ::
  "BaseClient \<Rightarrow> Env \<Rightarrow> string \<Rightarrow> RequestOptions option \<Rightarrow> (thrown + jsval) \<times> event list" where
  "delete c env endpoint options = return_data (request c env endpoint (verb_init ''DELETE'' None options))"

section \<open>AuthAPI\<close>

text \<open>
  \<^verbatim>\<open>logout\<close>: the two clearing calls come after the awaited \<^verbatim>\<open>post\<close>, so a throw of the
  \<^verbatim>\<open>post\<close> leaves them undone. The result is the client after the call, what the call
  returned or threw, and what it did on the network.
\<close>

definition logout ::
  "BaseClient \<Rightarrow> Env \<Rightarrow> BodyArgument \<Rightarrow> BaseClient \<times> (thrown + jsval) \<times> event list" where
  "logout c env data =
     (case post c env ''/auth/logout'' data None of
        (Inl error, evs) \<Rightarrow> (c, Inl error, evs)
      | (Inr response, evs) \<Rightarrow> (clearRefreshToken (clearToken c), Inr response, evs))"

section \<open>Example surroundings\<close>

text \<open>
  Concrete clients, responses and networks for the examples below: the configuration of
  the repository's tests, a JSON response with a given status and body, a response with
  another content type, and surroundings in which the n-th call of \<^verbatim>\<open>fetch\<close> settles as
  given, once outside and once inside a test run.
\<close>

definition TEST_CONFIG :: ClientConfig where
  "TEST_CONFIG = \<lparr> ClientConfig.baseURL = ''http://localhost:3000/api'',
                   ClientConfig.timeout = Some 30000,
                   ClientConfig.headers = None \<rparr>"

definition json_response :: "nat \<Rightarrow> jsval \<Rightarrow> Response" where
  "json_response st data = \<lparr> status = st, content_type = Some ''application/json'', json = Inr data \<rparr>"

definition other_response :: "nat \<Rightarrow> string \<Rightarrow> Response" where
  "other_response st ct =
     \<lparr> status = st, content_type = Some ct,
       json = Inl (Error ''SyntaxError'' ''Unexpected end of JSON input'') \<rparr>"

definition production :: "(nat \<Rightarrow> fetch_outcome) \<Rightarrow> Env" where
  "production answers =
     \<lparr> NODE_ENV = Some ''production'', VITEST = None, vitest_global = False,
       fetch = (\<lambda>n call. answers n), now = (\<lambda>n. ''2026-01-01T00:00:00.000Z'') \<rparr>"

definition under_vitest :: "(nat \<Rightarrow> fetch_outcome) \<Rightarrow> Env" where
  "under_vitest answers =
     \<lparr> NODE_ENV = Some ''test'', VITEST = Some ''true'', vitest_global = False,
       fetch = (\<lambda>n call. answers n), now = (\<lambda>n. ''2026-01-01T00:00:00.000Z'') \<rparr>"

text \<open>
  Body arguments for the examples. A data value comes with the JSON text the platform
  prints for it; its conversion to a boolean is computed. \<^verbatim>\<open>JSON.stringify\<close> gives
  \<^verbatim>\<open>undefined\<close> for \<^verbatim>\<open>undefined\<close>, for a symbol and for a function without a
  \<^verbatim>\<open>toJSON\<close> of its own, the latter two being truthy, and it throws a \<^verbatim>\<open>TypeError\<close> for a
  big integer.
\<close>

definition data_body :: "jsval \<Rightarrow> string \<Rightarrow> BodyArgument" where
  "data_body v t = \<lparr> ToBoolean = truthy v, JSON_stringify = Inr (Some t) \<rparr>"

definition omitted_body :: BodyArgument where
  "omitted_body = \<lparr> ToBoolean = truthy JUndefined, JSON_stringify = Inr None \<rparr>"

definition zero_body :: BodyArgument where
  "zero_body = data_body (JNumber (Finite 0)) ''0''"

definition empty_string_body :: BodyArgument where
  "empty_string_body = data_body (JString []) [CHR 0x22, CHR 0x22]"

definition false_body :: BodyArgument where
  "false_body = data_body (JBoolean False) ''false''"

definition NaN_body :: BodyArgument where
  "NaN_body = data_body (JNumber NaN) ''null''"

definition null_body :: BodyArgument where
  "null_body = data_body JNull ''null''"

definition true_body :: BodyArgument where
  "true_body = data_body (JBoolean True) ''true''"

definition refresh_dto :: BodyArgument where
  "refresh_dto =
     data_body (JObject [(''refreshToken'', JString ''some-refresh-token'')])
       (''{'' @ CHR 0x22 # ''refreshToken'' @ CHR 0x22 # '':'' @
        CHR 0x22 # ''some-refresh-token'' @ CHR 0x22 # ''}'')"

definition symbol_body :: BodyArgument where
  "symbol_body = \<lparr> ToBoolean = True, JSON_stringify = Inr None \<rparr>"

definition function_body :: BodyArgument where
  "function_body = \<lparr> ToBoolean = True, JSON_stringify = Inr None \<rparr>"

definition bigint_body :: BodyArgument where
  "bigint_body =
     \<lparr> ToBoolean = True,
       JSON_stringify = Inl (Error ''TypeError'' ''Do not know how to serialize a BigInt'') \<rparr>"

section \<open>Substrings\<close>

lemma str_includes_sublist: "str_includes s sub \<longleftrightarrow> sublist sub s"
  by (induction s) (auto simp: sublist_Cons_right)

lemma str_includes_middle: "str_includes b m \<Longrightarrow> str_includes (a @ b @ c) m"
  unfolding str_includes_sublist
  by (metis sublist_appendI sublist_order.order_trans)

section \<open>One attempt\<close>

lemma executeRequest_ok:
  assumes "fetch env n (fetch_call c endpoint options) = Resolved response"
    and "is_json_content_type (content_type response)"
    and "json response = Inr data"
    and "ok response"
  shows "executeRequest c env n endpoint options =
           Inr (if envelope_shaped data then data else wrap_body (now env n) data)"
  using assms by (simp add: executeRequest_def try_block_def)

lemma executeRequest_not_ok:
  assumes "fetch env n (fetch_call c endpoint options) = Resolved response"
    and "is_json_content_type (content_type response)"
    and "json response = Inr data"
    and "\<not> ok response"
  shows "executeRequest c env n endpoint options =
           Inl (RendevoAPIError (status response)
                  (if error_shaped data then data
                   else synthesized_payload (status response) (now env n) endpoint options data))"
  using assms by (simp add: executeRequest_def try_block_def catch_block_def)

lemma executeRequest_not_json:
  assumes "fetch env n (fetch_call c endpoint options) = Resolved response"
    and "\<not> is_json_content_type (content_type response)"
  shows "executeRequest c env n endpoint options =
           Inl (catch_block c endpoint options
                  (Error ''Error'' (''Invalid response format: expected JSON but got '' @
                                     content_type_or_unknown (content_type response))))"
  using assms by (simp add: executeRequest_def try_block_def)

lemma executeRequest_Inr:
  assumes "executeRequest c env n endpoint options = Inr v"
  shows "\<exists>response data.
           fetch env n (fetch_call c endpoint options) = Resolved response
           \<and> is_json_content_type (content_type response)
           \<and> json response = Inr data
           \<and> ok response
           \<and> v = (if envelope_shaped data then data else wrap_body (now env n) data)"
  using assms
  by (auto simp: executeRequest_def try_block_def
      split: sum.splits fetch_outcome.splits if_splits)

section \<open>The loop, unrolled\<close>

lemma retry_loop_unrolled:
  "retry_loop c env endpoint options None 0 =
     (let call = Fetch (fetch_call c endpoint options) in
      case executeRequest c env 0 endpoint options of
        Inr v \<Rightarrow> (Inr v, [call])
      | Inl e0 \<Rightarrow>
          if \<not> isRetryableError e0 then (Inl e0, [call])
          else
            (case executeRequest c env 1 endpoint options of
               Inr v \<Rightarrow> (Inr v, [call, Delay 1000, call])
             | Inl e1 \<Rightarrow>
                 if \<not> isRetryableError e1 then (Inl e1, [call, Delay 1000, call])
                 else (executeRequest c env 2 endpoint options,
                       [call, Delay 1000, call, Delay 2000, call])))"
proof -
  have two: "retry_loop c env endpoint options le (Suc (Suc 0)) =
               (executeRequest c env 2 endpoint options, [Fetch (fetch_call c endpoint options)])" for le
    by (subst retry_loop.simps) (simp add: maxRetries_def numeral_2_eq_2 split: sum.splits)
  have one: "retry_loop c env endpoint options le (Suc 0) =
               (case executeRequest c env 1 endpoint options of
                  Inr v \<Rightarrow> (Inr v, [Fetch (fetch_call c endpoint options)])
                | Inl e1 \<Rightarrow>
                    if \<not> isRetryableError e1 then (Inl e1, [Fetch (fetch_call c endpoint options)])
                    else (executeRequest c env 2 endpoint options,
                          [Fetch (fetch_call c endpoint options), Delay 2000,
                           Fetch (fetch_call c endpoint options)]))" for le
    by (subst retry_loop.simps) (simp add: maxRetries_def two split: sum.splits)
  show ?thesis
    by (subst retry_loop.simps) (simp add: maxRetries_def one Let_def split: sum.splits)
qed

section \<open>Requests\<close>

lemma request_test_mode:
  "isTestEnv env \<Longrightarrow>
     request c env endpoint options =
       (executeRequest c env 0 endpoint options, [Fetch (fetch_call c endpoint options)])"
  by (simp add: request_def)

lemma request_events:
  "snd (request c env endpoint options) \<in>
     {[Fetch (fetch_call c endpoint options)],
      [Fetch (fetch_call c endpoint options), Delay 1000, Fetch (fetch_call c endpoint options)],
      [Fetch (fetch_call c endpoint options), Delay 1000, Fetch (fetch_call c endpoint options),
       Delay 2000, Fetch (fetch_call c endpoint options)]}"
  by (simp add: request_def retry_loop_unrolled Let_def split: sum.splits)

lemma request_calls:
  "set (fetch_calls (snd (request c env endpoint options))) = {fetch_call c endpoint options}"
  using request_events [of c env endpoint options] by auto

lemma request_first_success:
  assumes "executeRequest c env 0 endpoint options = Inr v"
  shows "request c env endpoint options = (Inr v, [Fetch (fetch_call c endpoint options)])"
  using assms by (simp add: request_def retry_loop_unrolled)

lemma request_first_not_retryable:
  assumes "executeRequest c env 0 endpoint options = Inl e" and "\<not> isRetryableError e"
  shows "request c env endpoint options = (Inl e, [Fetch (fetch_call c endpoint options)])"
  using assms by (simp add: request_def retry_loop_unrolled)

lemma snd_return_data: "snd (return_data r) = snd r"
  by (cases r) (auto simp: return_data_def split: sum.splits)

lemma fst_return_data:
  "fst (return_data r) = (case fst r of Inl e \<Rightarrow> Inl e | Inr v \<Rightarrow> Inr (get_prop v ''data''))"
  by (cases r) (auto simp: return_data_def split: sum.splits)

lemma get_prop_wrap_body: "get_prop (wrap_body ts data) ''data'' = data"
  by (simp add: wrap_body_def)

lemma verb_events:
  "snd (get c env endpoint options) = snd (request c env endpoint (verb_init ''GET'' None options))"
  "snd (delete c env endpoint options) = snd (request c env endpoint (verb_init ''DELETE'' None options))"
  by (simp_all add: get_def delete_def snd_return_data)

lemma body_verb_events:
  assumes "body_text b = Inr t"
  shows "snd (post c env endpoint b options) = snd (request c env endpoint (verb_init ''POST'' t options))"
    and "snd (patch c env endpoint b options) = snd (request c env endpoint (verb_init ''PATCH'' t options))"
    and "snd (put c env endpoint b options) = snd (request c env endpoint (verb_init ''PUT'' t options))"
  using assms by (simp_all add: post_def patch_def put_def snd_return_data)

lemma body_verb_throws:
  assumes "body_text b = Inl error"
  shows "post c env endpoint b options = (Inl error, [])"
    and "patch c env endpoint b options = (Inl error, [])"
    and "put c env endpoint b options = (Inl error, [])"
  using assms by (simp_all add: post_def patch_def put_def)

lemma request_calls_nonempty: "fetch_calls (snd (request c env endpoint options)) \<noteq> []"
  using request_calls [of c env endpoint options] by auto

lemma request_result:
  "fst (request c env endpoint options) = executeRequest c env 0 endpoint options
   \<or> fst (request c env endpoint options) = executeRequest c env 1 endpoint options
   \<or> fst (request c env endpoint options) = executeRequest c env 2 endpoint options"
  by (cases "isTestEnv env")
     (simp_all add: request_test_mode request_def retry_loop_unrolled Let_def split: sum.splits)

section \<open>Successful responses\<close>

lemma request_success:
  assumes "fetch env 0 (fetch_call c endpoint options) = Resolved response"
    and "is_json_content_type (content_type response)"
    and "json response = Inr data"
    and "ok response"
  shows "request c env endpoint options =
           (Inr (if envelope_shaped data then data else wrap_body (now env 0) data),
            [Fetch (fetch_call c endpoint options)])"
  using executeRequest_ok [OF assms] by (rule request_first_success)

lemma return_data_success:
  assumes "fetch env 0 (fetch_call c endpoint options) = Resolved response"
    and "is_json_content_type (content_type response)"
    and "json response = Inr data"
    and "ok response"
  shows "return_data (request c env endpoint options) =
           (Inr (if envelope_shaped data then get_prop data ''data'' else data),
            [Fetch (fetch_call c endpoint options)])"
  by (simp add: request_success [OF assms] return_data_def get_prop_wrap_body)

lemma returned_data_origin:
  assumes "fst (return_data (request c env endpoint init)) = Inr v"
  shows "\<exists>n<3. \<exists>response data.
           fetch env n (fetch_call c endpoint init) = Resolved response
           \<and> is_json_content_type (content_type response)
           \<and> json response = Inr data
           \<and> ok response
           \<and> v = (if envelope_shaped data then get_prop data ''data'' else data)"
proof -
  from assms obtain w where w: "fst (request c env endpoint init) = Inr w"
    and v: "v = get_prop w ''data''"
    by (auto simp: fst_return_data split: sum.splits)
  from request_result [of c env endpoint init] w
  obtain n where n: "n < 3" and e: "executeRequest c env n endpoint init = Inr w"
    by (metis numeral_3_eq_3 zero_less_Suc one_less_numeral_iff semiring_norm(77) lessI
        numeral_2_eq_2 less_Suc_eq)
  from executeRequest_Inr [OF e] obtain response data where
    r: "fetch env n (fetch_call c endpoint init) = Resolved response"
       "is_json_content_type (content_type response)"
       "json response = Inr data" "ok response"
    and w': "w = (if envelope_shaped data then data else wrap_body (now env n) data)"
    by blast
  have "v = (if envelope_shaped data then get_prop data ''data'' else data)"
    using v w' by (simp add: get_prop_wrap_body)
  with n r show ?thesis by blast
qed

text \<open>
  C1, as the code has it. The client takes a parsed body for an envelope when it is an
  object with a \<open>data\<close> and a \<open>success\<close> property; \<open>timestamp\<close> is not looked at.
  For a 2xx response with a JSON content type and a parseable body, each of the five verb
  methods (the three with a body once the body is serialised) makes one attempt and returns the \<open>data\<close> property of the body when the body
  is such an object, and the body itself when it is not. In particular a body with all
  three of \<open>success\<close>, \<open>data\<close> and \<open>timestamp\<close> gives its \<open>data\<close> property.
  Conversely, whatever a verb method returns (each of them returns the \<open>data\<close> of what
  \<open>request\<close> gives for its options) comes in this way from a 2xx JSON response to one
  of the at most three attempts.
\<close>

theorem C1_verbs_return_data:
  "is_json_content_type (content_type response) \<and> json response = Inr data \<and> ok response
   \<longrightarrow>
     (fetch env 0 (fetch_call c endpoint (verb_init ''GET'' None options)) = Resolved response \<longrightarrow>
        get c env endpoint options =
          (Inr (if envelope_shaped data then get_prop data ''data'' else data),
           [Fetch (fetch_call c endpoint (verb_init ''GET'' None options))]))
   \<and> (body_text b = Inr t
        \<and> fetch env 0 (fetch_call c endpoint (verb_init ''POST'' t options)) = Resolved response \<longrightarrow>
        post c env endpoint b options =
          (Inr (if envelope_shaped data then get_prop data ''data'' else data),
           [Fetch (fetch_call c endpoint (verb_init ''POST'' t options))]))
   \<and> (body_text b = Inr t
        \<and> fetch env 0 (fetch_call c endpoint (verb_init ''PATCH'' t options)) = Resolved response \<longrightarrow>
        patch c env endpoint b options =
          (Inr (if envelope_shaped data then get_prop data ''data'' else data),
           [Fetch (fetch_call c endpoint (verb_init ''PATCH'' t options))]))
   \<and> (body_text b = Inr t
        \<and> fetch env 0 (fetch_call c endpoint (verb_init ''PUT'' t options)) = Resolved response \<longrightarrow>
        put c env endpoint b options =
          (Inr (if envelope_shaped data then get_prop data ''data'' else data),
           [Fetch (fetch_call c endpoint (verb_init ''PUT'' t options))]))
   \<and> (fetch env 0 (fetch_call c endpoint (verb_init ''DELETE'' None options)) = Resolved response \<longrightarrow>
        delete c env endpoint options =
          (Inr (if envelope_shaped data then get_prop data ''data'' else data),
           [Fetch (fetch_call c endpoint (verb_init ''DELETE'' None options))]))
   \<and> (is_object data \<and> has_key ''success'' data \<and> has_key ''data'' data \<and> has_key ''timestamp'' data
        \<longrightarrow> envelope_shaped data)
   \<and> (fst (return_data (request c env endpoint init)) = Inr v \<longrightarrow>
        (\<exists>n<3. \<exists>response' data'.
            fetch env n (fetch_call c endpoint init) = Resolved response'
            \<and> is_json_content_type (content_type response')
            \<and> json response' = Inr data'
            \<and> ok response'
            \<and> v = (if envelope_shaped data' then get_prop data' ''data'' else data')))"
  using returned_data_origin [of c env endpoint init v]
  by (simp add: get_def post_def patch_def put_def delete_def return_data_success
      envelope_shaped_def)

theorem C1_verbs_return_data_witness:
  "get (new_BaseClient TEST_CONFIG)
     (under_vitest (\<lambda>n. Resolved (json_response 200
        (JObject [(''success'', JBoolean True), (''data'', JString ''payload''),
                  (''timestamp'', JString ''2024-01-01T00:00:00.000Z'')]))))
     ''/test'' None
   = (Inr (JString ''payload''),
      [Fetch (fetch_call (new_BaseClient TEST_CONFIG) ''/test'' (verb_init ''GET'' None None))])
   \<and> post (new_BaseClient TEST_CONFIG)
     (under_vitest (\<lambda>n. Resolved (json_response 200 (JObject [(''message'', JString ''success'')]))))
     ''/test'' true_body None
   = (Inr (JObject [(''message'', JString ''success'')]),
      [Fetch (fetch_call (new_BaseClient TEST_CONFIG) ''/test''
         (verb_init ''POST'' (Some ''true'') None))])"
proof -
  let ?e = "JObject [(''success'', JBoolean True), (''data'', JString ''payload''),
                  (''timestamp'', JString ''2024-01-01T00:00:00.000Z'')]"
  let ?m = "JObject [(''message'', JString ''success'')]"
  have j: "is_json_content_type (content_type (json_response 200 d)) \<and>
           json (json_response 200 d) = Inr d \<and> ok (json_response 200 d)" for d
    by (simp add: json_response_def is_json_content_type_def ok_def)
  have f: "fetch (under_vitest (\<lambda>n. Resolved r)) 0 call = Resolved r" for r call
    by (simp add: under_vitest_def)
  have bt: "body_text true_body = Inr (Some ''true'')"
    by (simp add: body_text_def true_body_def data_body_def)
  have "get (new_BaseClient TEST_CONFIG) (under_vitest (\<lambda>n. Resolved (json_response 200 ?e))) ''/test'' None
        = (Inr (if envelope_shaped ?e then get_prop ?e ''data'' else ?e),
           [Fetch (fetch_call (new_BaseClient TEST_CONFIG) ''/test'' (verb_init ''GET'' None None))])"
    using C1_verbs_return_data [where response = "json_response 200 ?e" and data = ?e
        and env = "under_vitest (\<lambda>n. Resolved (json_response 200 ?e))"
        and c = "new_BaseClient TEST_CONFIG" and endpoint = "''/test''" and options = None] j f
    by blast
  moreover have "post (new_BaseClient TEST_CONFIG) (under_vitest (\<lambda>n. Resolved (json_response 200 ?m)))
          ''/test'' true_body None
        = (Inr (if envelope_shaped ?m then get_prop ?m ''data'' else ?m),
           [Fetch (fetch_call (new_BaseClient TEST_CONFIG) ''/test''
              (verb_init ''POST'' (Some ''true'') None))])"
    using C1_verbs_return_data [where response = "json_response 200 ?m" and data = ?m
        and env = "under_vitest (\<lambda>n. Resolved (json_response 200 ?m))"
        and c = "new_BaseClient TEST_CONFIG" and endpoint = "''/test''" and options = None
        and b = true_body and t = "Some ''true''"] j f bt
    by blast
  ultimately show ?thesis
    by (simp add: envelope_shaped_def)
qed

text \<open>
  The claim as written takes a body for an envelope when it has the shape
  \<open>{success, data, timestamp}\<close>, and has every other body returned as it is. The body
  \<open>{success: true, data: 1}\<close> has no \<open>timestamp\<close>; the verb method returns \<open>1\<close>, not
  the body.
\<close>

theorem C1_counterexample:
  "\<not> has_key ''timestamp'' (JObject [(''success'', JBoolean True), (''data'', JNumber (Finite 1))])
   \<and> ok (json_response 200 (JObject [(''success'', JBoolean True), (''data'', JNumber (Finite 1))]))
   \<and> fst (get (new_BaseClient TEST_CONFIG)
        (production (\<lambda>n. Resolved (json_response 200
           (JObject [(''success'', JBoolean True), (''data'', JNumber (Finite 1))]))))
        ''/test'' None)
     = Inr (JNumber (Finite 1))
   \<and> fst (get (new_BaseClient TEST_CONFIG)
        (production (\<lambda>n. Resolved (json_response 200
           (JObject [(''success'', JBoolean True), (''data'', JNumber (Finite 1))]))))
        ''/test'' None)
     \<noteq> Inr (JObject [(''success'', JBoolean True), (''data'', JNumber (Finite 1))])"
  by (simp add: get_def fst_return_data request_def retry_loop_unrolled Let_def
      isTestEnv_def production_def json_response_def executeRequest_def try_block_def
      is_json_content_type_def ok_def envelope_shaped_def)

section \<open>Retry policy\<close>

lemma server_error_retryable:
  assumes "fetch env n (fetch_call c endpoint options) = Resolved response"
    and "is_json_content_type (content_type response)"
    and "json response = Inr data"
    and "500 \<le> status response"
  shows "\<exists>payload. executeRequest c env n endpoint options =
                      Inl (RendevoAPIError (status response) payload)
                    \<and> isRetryableError (RendevoAPIError (status response) payload)"
  using assms by (simp add: executeRequest_not_ok ok_def)

text \<open>
  C2, as the code has it. Inside a test run (any of the three markers) a request makes
  exactly one attempt, whatever it yields. Outside a test run a request makes one, two or three attempts,
  waits 1000 ms between the first and the second and 2000 ms between the second and the
  third, and waits nowhere else. A JSON response with a status in 500..599 makes the
  attempt throw a \<open>RendevoAPIError\<close> with that status, which is retryable: after such
  a first attempt the second one follows, and after two of them the third one follows
  and its outcome is the outcome of the request.
\<close>

theorem C2_retry_policy:
  "(isTestEnv env \<longrightarrow>
      request c env endpoint options =
        (executeRequest c env 0 endpoint options, [Fetch (fetch_call c endpoint options)])
      \<and> attempts (snd (request c env endpoint options)) = 1)
   \<and> (\<not> isTestEnv env \<longrightarrow>
        attempts (snd (request c env endpoint options)) \<le> 3
        \<and> snd (request c env endpoint options) \<in>
            {[Fetch (fetch_call c endpoint options)],
             [Fetch (fetch_call c endpoint options), Delay (2 ^ 0 * 1000),
              Fetch (fetch_call c endpoint options)],
             [Fetch (fetch_call c endpoint options), Delay (2 ^ 0 * 1000),
              Fetch (fetch_call c endpoint options), Delay (2 ^ 1 * 1000),
              Fetch (fetch_call c endpoint options)]})
   \<and> (fetch env n (fetch_call c endpoint options) = Resolved response
        \<and> is_json_content_type (content_type response)
        \<and> json response = Inr data
        \<and> 500 \<le> status response \<and> status response \<le> 599 \<longrightarrow>
        (\<exists>payload. executeRequest c env n endpoint options =
                      Inl (RendevoAPIError (status response) payload)
                    \<and> isRetryableError (RendevoAPIError (status response) payload)))
   \<and> (\<not> isTestEnv env
        \<and> fetch env 0 (fetch_call c endpoint options) = Resolved response_a
        \<and> is_json_content_type (content_type response_a)
        \<and> json response_a = Inr data_a
        \<and> 500 \<le> status response_a \<and> status response_a \<le> 599 \<longrightarrow>
        prefix [Fetch (fetch_call c endpoint options), Delay 1000,
                Fetch (fetch_call c endpoint options)]
               (snd (request c env endpoint options))
        \<and> (fetch env 1 (fetch_call c endpoint options) = Resolved response_b
             \<and> is_json_content_type (content_type response_b)
             \<and> json response_b = Inr data_b
             \<and> 500 \<le> status response_b \<and> status response_b \<le> 599 \<longrightarrow>
             request c env endpoint options =
               (executeRequest c env 2 endpoint options,
                [Fetch (fetch_call c endpoint options), Delay 1000,
                 Fetch (fetch_call c endpoint options), Delay 2000,
                 Fetch (fetch_call c endpoint options)])
             \<and> attempts (snd (request c env endpoint options)) = 3
             \<and> delays (snd (request c env endpoint options)) = [1000, 2000]))"
proof (intro conjI impI)
  assume "isTestEnv env"
  then show "request c env endpoint options =
        (executeRequest c env 0 endpoint options, [Fetch (fetch_call c endpoint options)])"
    by (rule request_test_mode)
next
  assume "isTestEnv env"
  then show "attempts (snd (request c env endpoint options)) = 1"
    by (simp add: request_test_mode attempts_def)
next
  show "attempts (snd (request c env endpoint options)) \<le> 3"
    using request_events [of c env endpoint options] by (auto simp: attempts_def)
next
  show "snd (request c env endpoint options) \<in>
            {[Fetch (fetch_call c endpoint options)],
             [Fetch (fetch_call c endpoint options), Delay (2 ^ 0 * 1000),
              Fetch (fetch_call c endpoint options)],
             [Fetch (fetch_call c endpoint options), Delay (2 ^ 0 * 1000),
              Fetch (fetch_call c endpoint options), Delay (2 ^ 1 * 1000),
              Fetch (fetch_call c endpoint options)]}"
    using request_events [of c env endpoint options] by simp
next
  assume "fetch env n (fetch_call c endpoint options) = Resolved response
        \<and> is_json_content_type (content_type response)
        \<and> json response = Inr data
        \<and> 500 \<le> status response \<and> status response \<le> 599"
  then show "\<exists>payload. executeRequest c env n endpoint options =
                      Inl (RendevoAPIError (status response) payload)
                    \<and> isRetryableError (RendevoAPIError (status response) payload)"
    using server_error_retryable by blast
next
  assume a0: "\<not> isTestEnv env
        \<and> fetch env 0 (fetch_call c endpoint options) = Resolved response_a
        \<and> is_json_content_type (content_type response_a)
        \<and> json response_a = Inr data_a
        \<and> 500 \<le> status response_a \<and> status response_a \<le> 599"
  then obtain p0 where e0: "executeRequest c env 0 endpoint options =
                      Inl (RendevoAPIError (status response_a) p0)"
    and r0: "isRetryableError (RendevoAPIError (status response_a) p0)"
    using server_error_retryable by blast
  from a0 e0 r0 show "prefix [Fetch (fetch_call c endpoint options), Delay 1000,
                Fetch (fetch_call c endpoint options)]
               (snd (request c env endpoint options))"
    by (simp add: request_def retry_loop_unrolled Let_def split: sum.splits)
  {
    assume a1: "fetch env 1 (fetch_call c endpoint options) = Resolved response_b
             \<and> is_json_content_type (content_type response_b)
             \<and> json response_b = Inr data_b
             \<and> 500 \<le> status response_b \<and> status response_b \<le> 599"
    then obtain p1 where e1: "executeRequest c env 1 endpoint options =
                      Inl (RendevoAPIError (status response_b) p1)"
      and r1: "isRetryableError (RendevoAPIError (status response_b) p1)"
      using server_error_retryable by blast
    from a0 e0 r0 e1 r1 have req: "request c env endpoint options =
               (executeRequest c env 2 endpoint options,
                [Fetch (fetch_call c endpoint options), Delay 1000,
                 Fetch (fetch_call c endpoint options), Delay 2000,
                 Fetch (fetch_call c endpoint options)])"
      by (simp add: request_def retry_loop_unrolled Let_def)
    show "request c env endpoint options =
               (executeRequest c env 2 endpoint options,
                [Fetch (fetch_call c endpoint options), Delay 1000,
                 Fetch (fetch_call c endpoint options), Delay 2000,
                 Fetch (fetch_call c endpoint options)])"
      by (rule req)
    show "attempts (snd (request c env endpoint options)) = 3"
      by (simp add: req attempts_def)
    show "delays (snd (request c env endpoint options)) = [1000, 2000]"
      by (simp add: req)
  }
qed

theorem C2_retry_policy_witness:
  "isTestEnv (under_vitest (\<lambda>n. Resolved (json_response 503 (JString ''Service Unavailable''))))
   \<and> attempts (snd (request (new_BaseClient TEST_CONFIG)
         (under_vitest (\<lambda>n. Resolved (json_response 503 (JString ''Service Unavailable''))))
         ''/users'' (verb_init ''GET'' None None))) = 1
   \<and> \<not> isTestEnv (production (\<lambda>n. Resolved (json_response 503 (JString ''Service Unavailable''))))
   \<and> attempts (snd (request (new_BaseClient TEST_CONFIG)
         (production (\<lambda>n. Resolved (json_response 503 (JString ''Service Unavailable''))))
         ''/users'' (verb_init ''GET'' None None))) = 3
   \<and> delays (snd (request (new_BaseClient TEST_CONFIG)
         (production (\<lambda>n. Resolved (json_response 503 (JString ''Service Unavailable''))))
         ''/users'' (verb_init ''GET'' None None))) = [1000, 2000]"
proof -
  let ?r = "json_response 503 (JString ''Service Unavailable'')"
  let ?c = "new_BaseClient TEST_CONFIG"
  let ?o = "verb_init ''GET'' None None"
  have t: "isTestEnv (under_vitest (\<lambda>n. Resolved ?r))"
    by (simp add: isTestEnv_def under_vitest_def)
  have p: "\<not> isTestEnv (production (\<lambda>n. Resolved ?r))"
    by (simp add: isTestEnv_def production_def)
  have f: "fetch (production (\<lambda>n. Resolved ?r)) k (fetch_call ?c ''/users'' ?o) = Resolved ?r" for k
    by (simp add: production_def)
  have j: "is_json_content_type (content_type ?r)" "json ?r = Inr (JString ''Service Unavailable'')"
    "500 \<le> status ?r" "status ?r \<le> 599"
    by (simp_all add: json_response_def is_json_content_type_def)
  have one: "attempts (snd (request ?c (under_vitest (\<lambda>n. Resolved ?r)) ''/users'' ?o)) = 1"
    using C2_retry_policy [where env = "under_vitest (\<lambda>n. Resolved ?r)" and c = ?c
        and endpoint = "''/users''" and options = ?o] t
    by blast
  have three: "attempts (snd (request ?c (production (\<lambda>n. Resolved ?r)) ''/users'' ?o)) = 3
      \<and> delays (snd (request ?c (production (\<lambda>n. Resolved ?r)) ''/users'' ?o)) = [1000, 2000]"
    using C2_retry_policy [where env = "production (\<lambda>n. Resolved ?r)" and c = ?c
        and endpoint = "''/users''" and options = ?o and response_a = ?r and response_b = ?r
        and data_a = "JString ''Service Unavailable''" and data_b = "JString ''Service Unavailable''"]
      p f j
    by blast
  show ?thesis
    using t p one three by simp
qed

text \<open>
  The claim as written speaks of every response with a status in 500..599 and has it
  yield a retryable \<open>RendevoAPIError\<close>. A 503 whose content type is \<open>text/html\<close>
  makes the attempt throw the generic format error, which is not retryable: outside a
  test run the request ends after that one attempt, with no delay.
\<close>

theorem C2_counterexample:
  "status (other_response 503 ''text/html'') = 503
   \<and> \<not> isTestEnv (production (\<lambda>n. Resolved (other_response 503 ''text/html'')))
   \<and> request (new_BaseClient TEST_CONFIG)
        (production (\<lambda>n. Resolved (other_response 503 ''text/html'')))
        ''/users'' (verb_init ''GET'' None None)
     = (Inl (Error ''Error'' ''Invalid response format: expected JSON but got text/html''),
        [Fetch (fetch_call (new_BaseClient TEST_CONFIG) ''/users'' (verb_init ''GET'' None None))])
   \<and> \<not> isRetryableError (Error ''Error'' ''Invalid response format: expected JSON but got text/html'')"
  by (simp add: request_def retry_loop_unrolled Let_def isTestEnv_def production_def
      other_response_def executeRequest_def try_block_def catch_block_def
      is_json_content_type_def content_type_or_unknown_def)

section \<open>Client errors\<close>

text \<open>
  C3, as the code has it. A response with a JSON content type whose body parses and
  whose status is in 400..499 ends the request after its first attempt, inside and
  outside a test run: the request throws a \<open>RendevoAPIError\<close> whose status code is the
  status of the response, the error is not retryable, and no delay and no second call
  of \<open>fetch\<close> happen.
\<close>

theorem C3_client_error_single_attempt:
  "fetch env 0 (fetch_call c endpoint options) = Resolved response
   \<and> is_json_content_type (content_type response)
   \<and> json response = Inr data
   \<and> 400 \<le> status response \<and> status response \<le> 499
   \<longrightarrow>
     request c env endpoint options =
       (Inl (RendevoAPIError (status response)
               (if error_shaped data then data
                else synthesized_payload (status response) (now env 0) endpoint options data)),
        [Fetch (fetch_call c endpoint options)])
     \<and> \<not> isRetryableError (RendevoAPIError (status response)
               (if error_shaped data then data
                else synthesized_payload (status response) (now env 0) endpoint options data))
     \<and> attempts (snd (request c env endpoint options)) = 1
     \<and> delays (snd (request c env endpoint options)) = []"
proof (intro impI)
  assume a: "fetch env 0 (fetch_call c endpoint options) = Resolved response
   \<and> is_json_content_type (content_type response)
   \<and> json response = Inr data
   \<and> 400 \<le> status response \<and> status response \<le> 499"
  define payload where "payload =
    (if error_shaped data then data
     else synthesized_payload (status response) (now env 0) endpoint options data)"
  from a have e: "executeRequest c env 0 endpoint options =
                    Inl (RendevoAPIError (status response) payload)"
    by (simp add: executeRequest_not_ok ok_def payload_def)
  from a have nr: "\<not> isRetryableError (RendevoAPIError (status response) payload)"
    by simp
  have req: "request c env endpoint options =
          (Inl (RendevoAPIError (status response) payload), [Fetch (fetch_call c endpoint options)])"
    using e nr by (cases "isTestEnv env") (simp_all add: request_test_mode request_first_not_retryable)
  show "request c env endpoint options =
       (Inl (RendevoAPIError (status response)
               (if error_shaped data then data
                else synthesized_payload (status response) (now env 0) endpoint options data)),
        [Fetch (fetch_call c endpoint options)])
     \<and> \<not> isRetryableError (RendevoAPIError (status response)
               (if error_shaped data then data
                else synthesized_payload (status response) (now env 0) endpoint options data))
     \<and> attempts (snd (request c env endpoint options)) = 1
     \<and> delays (snd (request c env endpoint options)) = []"
    using req nr unfolding payload_def by (simp add: attempts_def)
qed

theorem C3_client_error_single_attempt_witness:
  "request (new_BaseClient TEST_CONFIG)
     (production (\<lambda>n. Resolved (json_response 404
        (JObject [(''message'', JString ''User not found''), (''statusCode'', JNumber (Finite 404))]))))
     ''/users/999'' (verb_init ''GET'' None None)
   = (Inl (RendevoAPIError 404
        (JObject [(''message'', JString ''User not found''), (''statusCode'', JNumber (Finite 404))])),
      [Fetch (fetch_call (new_BaseClient TEST_CONFIG) ''/users/999'' (verb_init ''GET'' None None))])"
  using C3_client_error_single_attempt [where env = "production (\<lambda>n. Resolved (json_response 404
        (JObject [(''message'', JString ''User not found''), (''statusCode'', JNumber (Finite 404))])))"
      and c = "new_BaseClient TEST_CONFIG" and endpoint = "''/users/999''"
      and options = "verb_init ''GET'' None None"
      and response = "json_response 404
        (JObject [(''message'', JString ''User not found''), (''statusCode'', JNumber (Finite 404))])"
      and data = "JObject [(''message'', JString ''User not found''), (''statusCode'', JNumber (Finite 404))]"]
  by (simp add: production_def json_response_def is_json_content_type_def error_shaped_def)

text \<open>
  The claim as written speaks of every response with a status in 400..499. A 404 whose
  content type is \<open>text/html\<close> makes the request throw a generic error, which has
  no status code; and when the content type contains \<open>CORS\<close> the generic error is
  rewritten into the network error, which is retryable, so that three attempts are made.
\<close>

theorem C3_counterexample:
  "status (other_response 404 ''text/html'') = 404
   \<and> fst (get (new_BaseClient TEST_CONFIG)
             (production (\<lambda>n. Resolved (other_response 404 ''text/html''))) ''/users/999'' None)
       = Inl (Error ''Error'' ''Invalid response format: expected JSON but got text/html'')
   \<and> status (other_response 404 ''text/html; CORS'') = 404
   \<and> attempts (snd (get (new_BaseClient TEST_CONFIG)
             (production (\<lambda>n. Resolved (other_response 404 ''text/html; CORS''))) ''/users/999'' None))
       = 3"
  by (simp add: get_def snd_return_data fst_return_data request_def retry_loop_unrolled
      isTestEnv_def production_def other_response_def executeRequest_def try_block_def
      catch_block_def is_json_content_type_def content_type_or_unknown_def attempts_def Let_def)

section \<open>Error payloads\<close>

text \<open>
  C4. A response with a JSON content type whose body parses and whose status is outside
  200..299 makes the attempt throw a \<open>RendevoAPIError\<close> carrying the transport status.
  When the body is an object with a \<open>message\<close> and a \<open>statusCode\<close> property the payload
  is that body itself. Otherwise the payload is built by the client: \<open>success\<close> false,
  \<open>statusCode\<close> the transport status, \<open>path\<close> the endpoint, \<open>method\<close> the method of
  the options (\<open>GET\<close> when there is none), and \<open>message\<close> the body when the body is a
  string, \<open>An error occurred\<close> when it is anything else.
\<close>

theorem C4_error_payload:
  "fetch env n (fetch_call c endpoint options) = Resolved response
   \<and> is_json_content_type (content_type response)
   \<and> json response = Inr data
   \<and> \<not> ok response
   \<longrightarrow>
     (error_shaped data \<longrightarrow>
        executeRequest c env n endpoint options = Inl (RendevoAPIError (status response) data))
   \<and> (\<not> error_shaped data \<longrightarrow>
        (\<exists>payload.
           executeRequest c env n endpoint options = Inl (RendevoAPIError (status response) payload)
           \<and> get_prop payload ''success'' = JBoolean False
           \<and> get_prop payload ''statusCode'' = JNumber (Finite (int (status response)))
           \<and> get_prop payload ''timestamp'' = JString (now env n)
           \<and> get_prop payload ''path'' = JString endpoint
           \<and> get_prop payload ''method'' =
                 JString (case http_method options of None \<Rightarrow> ''GET''
                          | Some m \<Rightarrow> if m \<noteq> [] then m else ''GET'')
           \<and> get_prop payload ''message'' =
                 JString (case data of JString s \<Rightarrow> s | _ \<Rightarrow> ''An error occurred'')))"
  by (simp add: executeRequest_not_ok synthesized_payload_def method_or_GET_def)

theorem C4_error_payload_witness:
  "executeRequest (new_BaseClient TEST_CONFIG)
     (under_vitest (\<lambda>n. Resolved (json_response 401
        (JObject [(''success'', JBoolean False), (''statusCode'', JNumber (Finite 401)),
                  (''message'', JString ''Unauthorized'')]))))
     0 ''/test'' (verb_init ''GET'' None None)
   = Inl (RendevoAPIError 401
        (JObject [(''success'', JBoolean False), (''statusCode'', JNumber (Finite 401)),
                  (''message'', JString ''Unauthorized'')]))
   \<and> (\<exists>payload.
        executeRequest (new_BaseClient TEST_CONFIG)
          (under_vitest (\<lambda>n. Resolved (json_response 502 (JString ''Bad Gateway''))))
          0 ''/test'' (verb_init ''GET'' None None)
        = Inl (RendevoAPIError 502 payload)
        \<and> get_prop payload ''statusCode'' = JNumber (Finite 502)
        \<and> get_prop payload ''path'' = JString ''/test''
        \<and> get_prop payload ''method'' = JString ''GET''
        \<and> get_prop payload ''message'' = JString ''Bad Gateway'')"
  using
    C4_error_payload [where env = "under_vitest (\<lambda>n. Resolved (json_response 401
        (JObject [(''success'', JBoolean False), (''statusCode'', JNumber (Finite 401)),
                  (''message'', JString ''Unauthorized'')])))"
      and n = 0 and c = "new_BaseClient TEST_CONFIG" and endpoint = "''/test''"
      and options = "verb_init ''GET'' None None"
      and response = "json_response 401
        (JObject [(''success'', JBoolean False), (''statusCode'', JNumber (Finite 401)),
                  (''message'', JString ''Unauthorized'')])"
      and data = "JObject [(''success'', JBoolean False), (''statusCode'', JNumber (Finite 401)),
                  (''message'', JString ''Unauthorized'')]"]
    C4_error_payload [where env = "under_vitest (\<lambda>n. Resolved (json_response 502 (JString ''Bad Gateway'')))"
      and n = 0 and c = "new_BaseClient TEST_CONFIG" and endpoint = "''/test''"
      and options = "verb_init ''GET'' None None"
      and response = "json_response 502 (JString ''Bad Gateway'')"
      and data = "JString ''Bad Gateway''"]
  by (auto simp: under_vitest_def json_response_def is_json_content_type_def ok_def
      error_shaped_def verb_init_def)

section \<open>Generic errors\<close>

lemma generic_error_retryable:
  "isRetryableError (Error name message) \<longleftrightarrow>
     str_includes message ''Network error'' \<or> str_includes message ''fetch failed''
     \<or> str_includes message ''ECONNREFUSED''"
  by simp

lemma timeout_message_has_endpoint_marker:
  assumes "str_includes endpoint m"
  shows "str_includes (''Request timeout: The request to '' @ endpoint @
                       '' took longer than '' @ decimal ms @ ''ms'') m"
  using assms by (rule str_includes_middle)

lemma request_generic_not_retried:
  assumes "executeRequest c env 0 endpoint options = Inl (Error name message)"
    and "\<not> str_includes message ''Network error''"
    and "\<not> str_includes message ''fetch failed''"
    and "\<not> str_includes message ''ECONNREFUSED''"
  shows "request c env endpoint options =
           (Inl (Error name message), [Fetch (fetch_call c endpoint options)])"
  using assms by (cases "isTestEnv env") (simp_all add: request_test_mode request_first_not_retryable)

lemma catch_block_is_error: "catch_block c endpoint options e \<noteq> NonError v"
  by (cases e) (simp_all add: catch_block_def)

lemma executeRequest_is_error: "executeRequest c env n endpoint options \<noteq> Inl (NonError v)"
  by (simp add: executeRequest_def catch_block_is_error split: sum.splits)

lemma request_never_throws_non_error:
  "fst (request c env endpoint options) \<noteq> Inl (NonError v)"
  using request_result [of c env endpoint options] executeRequest_is_error by metis

text \<open>
  C5. The claim has timeout errors never retried. The message of a timeout error embeds
  the endpoint, and the retry test looks for its markers anywhere in the message: with
  the endpoint \<open>/users/ECONNREFUSED\<close> and a network that lets every attempt run into
  its timer, the request outside a test run is tried three times, with both delays,
  before the timeout error reaches the caller. With the endpoint \<open>/users/42\<close> the same
  network gives one attempt.
\<close>

theorem C5_timeout_retried:
  "get (new_BaseClient TEST_CONFIG)
     (production (\<lambda>n. Rejected (Error ''AbortError'' ''This operation was aborted'')))
     ''/users/ECONNREFUSED'' None
   = (Inl (Error ''Error''
        ''Request timeout: The request to /users/ECONNREFUSED took longer than 30000ms''),
      [Fetch (fetch_call (new_BaseClient TEST_CONFIG) ''/users/ECONNREFUSED'' (verb_init ''GET'' None None)),
       Delay 1000,
       Fetch (fetch_call (new_BaseClient TEST_CONFIG) ''/users/ECONNREFUSED'' (verb_init ''GET'' None None)),
       Delay 2000,
       Fetch (fetch_call (new_BaseClient TEST_CONFIG) ''/users/ECONNREFUSED'' (verb_init ''GET'' None None))])
   \<and> get (new_BaseClient TEST_CONFIG)
     (production (\<lambda>n. Rejected (Error ''AbortError'' ''This operation was aborted'')))
     ''/users/42'' None
   = (Inl (Error ''Error''
        ''Request timeout: The request to /users/42 took longer than 30000ms''),
      [Fetch (fetch_call (new_BaseClient TEST_CONFIG) ''/users/42'' (verb_init ''GET'' None None))])"
proof -
  have ms: "timeout_used (new_BaseClient TEST_CONFIG) (verb_init ''GET'' None None) = 30000"
    by (simp add: timeout_used_def new_BaseClient_def TEST_CONFIG_def verb_init_def or_default_def)
  have d: "decimal 30000 = ''30000''"
    by (simp add: decimal.simps)
  have e: "executeRequest (new_BaseClient TEST_CONFIG)
             (production (\<lambda>n. Rejected (Error ''AbortError'' ''This operation was aborted'')))
             k endpoint (verb_init ''GET'' None None)
           = Inl (Error ''Error'' (''Request timeout: The request to '' @ endpoint @
                                   '' took longer than 30000ms''))" for k endpoint
    by (simp add: executeRequest_def try_block_def catch_block_def production_def ms d)
  have p: "\<not> isTestEnv (production a)" for a
    by (simp add: isTestEnv_def production_def)
  show ?thesis
    by (simp add: get_def return_data_def request_def p retry_loop_unrolled Let_def e)
qed

section \<open>Outcomes of an attempt\<close>

lemma envelope_shaped_wrap_body: "envelope_shaped (wrap_body ts data)"
  by (simp add: envelope_shaped_def wrap_body_def)

lemma catch_block_RendevoAPIError:
  "catch_block c endpoint options e = RendevoAPIError st payload \<longleftrightarrow> e = RendevoAPIError st payload"
  by (cases e) (auto simp: catch_block_def)

lemma catch_block_generic:
  "\<exists>name' message'. catch_block c endpoint options (Error name message) = Error name' message'"
  by (simp add: catch_block_def)

lemma catch_block_unchanged:
  assumes "name \<noteq> ''AbortError''"
    and "\<not> str_includes message ''CORS''"
    and "\<not> str_includes message ''Network request failed''"
  shows "catch_block c endpoint options (Error name message) = Error name message"
  using assms by (simp add: catch_block_def)

lemma executeRequest_RendevoAPIError:
  assumes "executeRequest c env n endpoint options = Inl (RendevoAPIError st payload)"
  shows "(\<exists>response data.
            fetch env n (fetch_call c endpoint options) = Resolved response
            \<and> is_json_content_type (content_type response)
            \<and> json response = Inr data
            \<and> \<not> ok response
            \<and> st = status response
            \<and> payload = (if error_shaped data then data
                          else synthesized_payload (status response) (now env n) endpoint options data))
         \<or> fetch env n (fetch_call c endpoint options) = Rejected (RendevoAPIError st payload)
         \<or> (\<exists>response.
               fetch env n (fetch_call c endpoint options) = Resolved response
               \<and> is_json_content_type (content_type response)
               \<and> json response = Inl (RendevoAPIError st payload))"
proof (cases "fetch env n (fetch_call c endpoint options)")
  case (Rejected e)
  with assms show ?thesis
    by (simp add: executeRequest_def try_block_def catch_block_RendevoAPIError)
next
  case (Resolved response)
  show ?thesis
  proof (cases "is_json_content_type (content_type response)")
    case False
    with assms Resolved show ?thesis
      by (simp add: executeRequest_not_json catch_block_def split: if_splits)
  next
    case True
    show ?thesis
    proof (cases "json response")
      case (Inl e)
      with assms Resolved True show ?thesis
        by (simp add: executeRequest_def try_block_def catch_block_RendevoAPIError)
    next
      case (Inr data)
      show ?thesis
      proof (cases "ok response")
        case True
        with assms Resolved \<open>is_json_content_type (content_type response)\<close> Inr show ?thesis
          by (simp add: executeRequest_ok)
      next
        case False
        with assms Resolved \<open>is_json_content_type (content_type response)\<close> Inr show ?thesis
          by (simp add: executeRequest_not_ok)
      qed
    qed
  qed
qed

text \<open>
  The outcomes of an attempt. An attempt either returns or throws. What it returns is an
  object with a \<open>data\<close> and a \<open>success\<close> property, obtained from a 2xx response with a
  JSON content type whose body parsed: the body itself or the body wrapped. A response
  whose content type is missing or does not contain \<open>application/json\<close> makes the
  attempt throw a generic error that does not depend on the body; when the message
  \<open>Invalid response format: expected JSON but got\<close> followed by the content type (or
  by \<open>unknown\<close>) contains neither \<open>CORS\<close> nor \<open>Network request failed\<close>, that
  message is the one thrown. A \<open>RendevoAPIError\<close> is built only for a response with a
  JSON content type, a parsed body and a status outside 200..299, with that status;
  otherwise an attempt throws one only by passing on the very one that \<open>fetch\<close> or the
  parsing threw.
\<close>

lemma attempt_outcomes:
  "(executeRequest c env n endpoint options = Inr v \<longrightarrow>
      envelope_shaped v
      \<and> (\<exists>response data.
            fetch env n (fetch_call c endpoint options) = Resolved response
            \<and> is_json_content_type (content_type response)
            \<and> json response = Inr data
            \<and> ok response
            \<and> v = (if envelope_shaped data then data else wrap_body (now env n) data)))
   \<and> (fetch env n (fetch_call c endpoint options) = Resolved response
        \<and> \<not> is_json_content_type (content_type response) \<longrightarrow>
        (\<exists>name message. executeRequest c env n endpoint options = Inl (Error name message))
        \<and> executeRequest c env n endpoint options =
            Inl (catch_block c endpoint options
                   (Error ''Error'' (''Invalid response format: expected JSON but got '' @
                                      content_type_or_unknown (content_type response))))
        \<and> (\<not> str_includes (''Invalid response format: expected JSON but got '' @
                              content_type_or_unknown (content_type response)) ''CORS''
             \<and> \<not> str_includes (''Invalid response format: expected JSON but got '' @
                              content_type_or_unknown (content_type response)) ''Network request failed''
             \<longrightarrow>
             executeRequest c env n endpoint options =
               Inl (Error ''Error'' (''Invalid response format: expected JSON but got '' @
                                      content_type_or_unknown (content_type response))))
        \<and> (content_type response = None \<or> content_type response = Some [] \<longrightarrow>
             content_type_or_unknown (content_type response) = ''unknown'')
        \<and> (\<forall>ct. content_type response = Some ct \<and> ct \<noteq> [] \<longrightarrow>
             content_type_or_unknown (content_type response) = ct))
   \<and> (executeRequest c env n endpoint options = Inl (RendevoAPIError st payload) \<longrightarrow>
        (\<exists>response data.
            fetch env n (fetch_call c endpoint options) = Resolved response
            \<and> is_json_content_type (content_type response)
            \<and> json response = Inr data
            \<and> \<not> ok response
            \<and> st = status response
            \<and> payload = (if error_shaped data then data
                          else synthesized_payload (status response) (now env n) endpoint options data))
        \<or> fetch env n (fetch_call c endpoint options) = Rejected (RendevoAPIError st payload)
        \<or> (\<exists>response.
              fetch env n (fetch_call c endpoint options) = Resolved response
              \<and> is_json_content_type (content_type response)
              \<and> json response = Inl (RendevoAPIError st payload)))
   \<and> (fetch env n (fetch_call c endpoint options) = Resolved response
        \<and> is_json_content_type (content_type response)
        \<and> json response = Inr data
        \<and> ok response \<longrightarrow>
        (\<exists>v. executeRequest c env n endpoint options = Inr v))"
proof (intro conjI impI)
  assume r: "executeRequest c env n endpoint options = Inr v"
  from executeRequest_Inr [OF r]
  show "\<exists>response data.
            fetch env n (fetch_call c endpoint options) = Resolved response
            \<and> is_json_content_type (content_type response)
            \<and> json response = Inr data
            \<and> ok response
            \<and> v = (if envelope_shaped data then data else wrap_body (now env n) data)" .
  then show "envelope_shaped v"
    by (auto simp: envelope_shaped_wrap_body)
next
  assume a: "fetch env n (fetch_call c endpoint options) = Resolved response
        \<and> \<not> is_json_content_type (content_type response)"
  then have e: "executeRequest c env n endpoint options =
            Inl (catch_block c endpoint options
                   (Error ''Error'' (''Invalid response format: expected JSON but got '' @
                                      content_type_or_unknown (content_type response))))"
    by (simp add: executeRequest_not_json)
  show "executeRequest c env n endpoint options =
            Inl (catch_block c endpoint options
                   (Error ''Error'' (''Invalid response format: expected JSON but got '' @
                                      content_type_or_unknown (content_type response))))"
    by (rule e)
  show "\<exists>name message. executeRequest c env n endpoint options = Inl (Error name message)"
    using e catch_block_generic by (metis)
  show "content_type_or_unknown (content_type response) = ''unknown''"
    if "content_type response = None \<or> content_type response = Some []"
    using that by (auto simp: content_type_or_unknown_def)
  show "\<forall>ct. content_type response = Some ct \<and> ct \<noteq> [] \<longrightarrow>
             content_type_or_unknown (content_type response) = ct"
    by (simp add: content_type_or_unknown_def)
  show "executeRequest c env n endpoint options =
               Inl (Error ''Error'' (''Invalid response format: expected JSON but got '' @
                                      content_type_or_unknown (content_type response)))"
    if "\<not> str_includes (''Invalid response format: expected JSON but got '' @
                              content_type_or_unknown (content_type response)) ''CORS''
             \<and> \<not> str_includes (''Invalid response format: expected JSON but got '' @
                              content_type_or_unknown (content_type response)) ''Network request failed''"
    using that e by (simp add: catch_block_unchanged)
next
  assume "executeRequest c env n endpoint options = Inl (RendevoAPIError st payload)"
  then show "(\<exists>response data.
            fetch env n (fetch_call c endpoint options) = Resolved response
            \<and> is_json_content_type (content_type response)
            \<and> json response = Inr data
            \<and> \<not> ok response
            \<and> st = status response
            \<and> payload = (if error_shaped data then data
                          else synthesized_payload (status response) (now env n) endpoint options data))
        \<or> fetch env n (fetch_call c endpoint options) = Rejected (RendevoAPIError st payload)
        \<or> (\<exists>response.
              fetch env n (fetch_call c endpoint options) = Resolved response
              \<and> is_json_content_type (content_type response)
              \<and> json response = Inl (RendevoAPIError st payload))"
    by (rule executeRequest_RendevoAPIError)
next
  assume "fetch env n (fetch_call c endpoint options) = Resolved response
        \<and> is_json_content_type (content_type response)
        \<and> json response = Inr data
        \<and> ok response"
  then show "\<exists>v. executeRequest c env n endpoint options = Inr v"
    by (simp add: executeRequest_ok)
qed

text \<open>
  C6. The claim has every response whose content type is not JSON answered by a generic
  error that names the content type. The error is thrown inside the \<open>try\<close> block, so
  the attempt's own \<open>catch\<close> block examines it like an error of \<open>fetch\<close>: for the
  content type \<open>text/html; CORS\<close> it finds \<open>CORS\<close> in the message and throws the
  network error in its place, which names the base address and not the content type.
  For \<open>text/html\<close> the same code throws the error the claim describes.
\<close>

theorem C6_format_error_rewritten:
  "executeRequest (new_BaseClient TEST_CONFIG)
     (under_vitest (\<lambda>n. Resolved (other_response 200 ''text/html; CORS'')))
     0 ''/test'' (verb_init ''GET'' None None)
   = Inl (Error ''Error''
       ''Network error: Unable to reach http://localhost:3000/api. This may be due to CORS policy or network connectivity issues.'')
   \<and> \<not> str_includes
       ''Network error: Unable to reach http://localhost:3000/api. This may be due to CORS policy or network connectivity issues.''
       ''text/html; CORS''
   \<and> executeRequest (new_BaseClient TEST_CONFIG)
     (under_vitest (\<lambda>n. Resolved (other_response 200 ''text/html'')))
     0 ''/test'' (verb_init ''GET'' None None)
   = Inl (Error ''Error'' ''Invalid response format: expected JSON but got text/html'')"
  by (simp add: executeRequest_def try_block_def catch_block_def under_vitest_def other_response_def
      is_json_content_type_def content_type_or_unknown_def new_BaseClient_def TEST_CONFIG_def
      strip_trailing_slash_def)

section \<open>Logout\<close>

text \<open>
  C7. When the \<open>POST /auth/logout\<close> of \<open>logout\<close> throws (after the retry policy has
  run), \<open>logout\<close> throws the same error and the client is as it was before the call,
  both tokens included. When the call returns, \<open>logout\<close> returns what it returned and
  both tokens are cleared, nothing else of the client changing. So a token differs after
  \<open>logout\<close> only if the call returned.
\<close>

theorem C7_logout_clears_on_success_only:
  "(fst (post c env ''/auth/logout'' data None) = Inl error \<longrightarrow>
      logout c env data = (c, Inl error, snd (post c env ''/auth/logout'' data None))
      \<and> getToken (fst (logout c env data)) = getToken c
      \<and> getRefreshToken (fst (logout c env data)) = getRefreshToken c)
   \<and> (fst (post c env ''/auth/logout'' data None) = Inr response \<longrightarrow>
        logout c env data =
          (c\<lparr>token := None, refreshToken := None\<rparr>, Inr response,
           snd (post c env ''/auth/logout'' data None))
        \<and> getToken (fst (logout c env data)) = None
        \<and> getRefreshToken (fst (logout c env data)) = None)
   \<and> (getToken (fst (logout c env data)) \<noteq> getToken c
        \<or> getRefreshToken (fst (logout c env data)) \<noteq> getRefreshToken c \<longrightarrow>
        (\<exists>response. fst (post c env ''/auth/logout'' data None) = Inr response))"
  by (cases "post c env ''/auth/logout'' data None")
     (auto simp: logout_def clearToken_def clearRefreshToken_def getToken_def getRefreshToken_def
           split: sum.splits)

theorem C7_logout_clears_on_success_only_witness:
  "getToken (setRefreshToken (setToken (new_BaseClient TEST_CONFIG) ''some-token'') ''some-refresh-token'')
     = Some ''some-token''
   \<and> fst (post (setRefreshToken (setToken (new_BaseClient TEST_CONFIG) ''some-token'') ''some-refresh-token'')
        (under_vitest (\<lambda>n. Rejected (Error ''Error'' ''Network error'')))
        ''/auth/logout'' refresh_dto None)
     = Inl (Error ''Error'' ''Network error'')
   \<and> getToken (fst (logout
        (setRefreshToken (setToken (new_BaseClient TEST_CONFIG) ''some-token'') ''some-refresh-token'')
        (under_vitest (\<lambda>n. Rejected (Error ''Error'' ''Network error'')))
        refresh_dto))
     = Some ''some-token''
   \<and> getRefreshToken (fst (logout
        (setRefreshToken (setToken (new_BaseClient TEST_CONFIG) ''some-token'') ''some-refresh-token'')
        (under_vitest (\<lambda>n. Rejected (Error ''Error'' ''Network error'')))
        refresh_dto))
     = Some ''some-refresh-token''
   \<and> fst (post (setRefreshToken (setToken (new_BaseClient TEST_CONFIG) ''some-token'') ''some-refresh-token'')
        (under_vitest (\<lambda>n. Resolved (json_response 200 (JObject [(''message'', JString ''Logged out successfully'')]))))
        ''/auth/logout'' refresh_dto None)
     = Inr (JObject [(''message'', JString ''Logged out successfully'')])
   \<and> getToken (fst (logout
        (setRefreshToken (setToken (new_BaseClient TEST_CONFIG) ''some-token'') ''some-refresh-token'')
        (under_vitest (\<lambda>n. Resolved (json_response 200 (JObject [(''message'', JString ''Logged out successfully'')]))))
        refresh_dto))
     = None
   \<and> getRefreshToken (fst (logout
        (setRefreshToken (setToken (new_BaseClient TEST_CONFIG) ''some-token'') ''some-refresh-token'')
        (under_vitest (\<lambda>n. Resolved (json_response 200 (JObject [(''message'', JString ''Logged out successfully'')]))))
        refresh_dto))
     = None"
proof -
  let ?c = "setRefreshToken (setToken (new_BaseClient TEST_CONFIG) ''some-token'') ''some-refresh-token''"
  let ?d = refresh_dto
  have bt: "body_text refresh_dto =
              Inr (Some (''{'' @ CHR 0x22 # ''refreshToken'' @ CHR 0x22 # '':'' @
                         CHR 0x22 # ''some-refresh-token'' @ CHR 0x22 # ''}''))"
    by (simp add: body_text_def refresh_dto_def data_body_def)
  let ?bad = "under_vitest (\<lambda>n. Rejected (Error ''Error'' ''Network error''))"
  let ?m = "JObject [(''message'', JString ''Logged out successfully'')]"
  let ?good = "under_vitest (\<lambda>n. Resolved (json_response 200 ?m))"
  have tok: "getToken ?c = Some ''some-token''" "getRefreshToken ?c = Some ''some-refresh-token''"
    by (simp_all add: getToken_def getRefreshToken_def setToken_def setRefreshToken_def)
  have bad: "fst (post ?c ?bad ''/auth/logout'' ?d None) = Inl (Error ''Error'' ''Network error'')"
    by (simp add: post_def bt fst_return_data request_def isTestEnv_def under_vitest_def
        executeRequest_def try_block_def catch_block_def)
  have good: "fst (post ?c ?good ''/auth/logout'' ?d None) = Inr ?m"
    by (simp add: post_def bt fst_return_data request_def isTestEnv_def under_vitest_def
        executeRequest_def try_block_def json_response_def is_json_content_type_def ok_def
        envelope_shaped_def wrap_body_def)
  from C7_logout_clears_on_success_only [where c = ?c and env = ?bad and data = ?d
      and error = "Error ''Error'' ''Network error''"] bad tok
  have kept: "getToken (fst (logout ?c ?bad ?d)) = Some ''some-token''
              \<and> getRefreshToken (fst (logout ?c ?bad ?d)) = Some ''some-refresh-token''"
    by metis
  from C7_logout_clears_on_success_only [where c = ?c and env = ?good and data = ?d
      and response = ?m] good
  have cleared: "getToken (fst (logout ?c ?good ?d)) = None
              \<and> getRefreshToken (fst (logout ?c ?good ?d)) = None"
    by blast
  show ?thesis
    using tok bad good kept cleared by simp
qed

section \<open>The Authorization header\<close>

text \<open>
  C8, as the code has it. The token is attached when it is truthy, that is, when it is
  not the empty string. After \<open>setToken t\<close> with a non-empty \<open>t\<close>, every call of
  \<open>fetch\<close> that a request makes (there is at least one, and each attempt assembles its
  headers anew) carries \<open>Authorization: Bearer t\<close>, whatever the default and per-call
  headers say. After \<open>clearToken\<close>, every call carries exactly the default headers
  overridden by the per-call headers, so an \<open>Authorization\<close> entry is there only if one
  of the two supplies it.
\<close>

theorem C8_authorization_header:
  "(t \<noteq> [] \<longrightarrow>
      (\<forall>call \<in> set (fetch_calls (snd (request (setToken c t) env endpoint options))).
          fetch_headers call ''Authorization'' = Some (''Bearer '' @ t)))
   \<and> fetch_calls (snd (request (setToken c t) env endpoint options)) \<noteq> []
   \<and> (\<forall>call \<in> set (fetch_calls (snd (request (clearToken c) env endpoint options))).
          fetch_headers call = defaultHeaders c ++ spread (RequestOptions.headers options))
   \<and> (defaultHeaders c ''Authorization'' = None
        \<and> spread (RequestOptions.headers options) ''Authorization'' = None \<longrightarrow>
        (\<forall>call \<in> set (fetch_calls (snd (request (clearToken c) env endpoint options))).
            fetch_headers call ''Authorization'' = None))
   \<and> fetch_calls (snd (request (clearToken c) env endpoint options)) \<noteq> []"
  by (simp add: request_calls request_calls_nonempty fetch_call_def request_headers_def
      setToken_def clearToken_def map_add_def)

theorem C8_authorization_header_witness:
  "map (\<lambda>call. fetch_headers call ''Authorization'')
     (fetch_calls (snd (get (setToken (new_BaseClient TEST_CONFIG) ''mock-jwt-token-abc123'')
        (under_vitest (\<lambda>n. Resolved (json_response 200 (JObject [(''message'', JString ''success'')]))))
        ''/test'' None)))
   = [Some ''Bearer mock-jwt-token-abc123'']
   \<and> map (\<lambda>call. fetch_headers call ''Authorization'')
     (fetch_calls (snd (get (clearToken (setToken (new_BaseClient TEST_CONFIG) ''mock-jwt-token-abc123''))
        (under_vitest (\<lambda>n. Resolved (json_response 200 (JObject [(''message'', JString ''success'')]))))
        ''/test'' None)))
   = [None]"
proof -
  let ?c = "new_BaseClient TEST_CONFIG"
  let ?env = "under_vitest (\<lambda>n. Resolved (json_response 200 (JObject [(''message'', JString ''success'')])))"
  let ?o = "verb_init ''GET'' None None"
  let ?t = "''mock-jwt-token-abc123''"
  have t: "isTestEnv ?env"
    by (simp add: isTestEnv_def under_vitest_def)
  have one: "fetch_calls (snd (request c' ?env ''/test'' ?o)) = [fetch_call c' ''/test'' ?o]" for c'
    by (simp add: request_test_mode [OF t])
  have none: "defaultHeaders (setToken ?c ?t) ''Authorization'' = None
              \<and> spread (RequestOptions.headers ?o) ''Authorization'' = None"
    by (simp add: setToken_def new_BaseClient_def TEST_CONFIG_def verb_init_def spread_def)
  have "fetch_headers (fetch_call (setToken ?c ?t) ''/test'' ?o) ''Authorization'' = Some (''Bearer '' @ ?t)"
    using C8_authorization_header [where t = ?t and c = ?c and env = ?env
        and endpoint = "''/test''" and options = ?o]
    by (simp add: one)
  moreover have "fetch_headers (fetch_call (clearToken (setToken ?c ?t)) ''/test'' ?o) ''Authorization'' = None"
    using C8_authorization_header [where t = ?t and c = "setToken ?c ?t" and env = ?env
        and endpoint = "''/test''" and options = ?o] none
    by (simp add: one)
  ultimately show ?thesis
    by (simp add: verb_events one)
qed

text \<open>
  The claim as written covers every token. After \<open>setToken ''''\<close> the request goes out
  without an \<open>Authorization\<close> header: the empty string is falsy.
\<close>

theorem C8_counterexample:
  "getToken (setToken (new_BaseClient TEST_CONFIG) '''') = Some ''''
   \<and> map (\<lambda>call. fetch_headers call ''Authorization'')
     (fetch_calls (snd (get (setToken (new_BaseClient TEST_CONFIG) '''')
        (under_vitest (\<lambda>n. Resolved (json_response 200 (JObject [(''message'', JString ''success'')]))))
        ''/test'' None)))
   = [None]"
  by (simp add: verb_events request_def isTestEnv_def under_vitest_def fetch_call_def
      request_headers_def setToken_def getToken_def new_BaseClient_def TEST_CONFIG_def
      verb_init_def spread_def)

section \<open>Construction\<close>

lemma strip_trailing_slash_snoc: "strip_trailing_slash (s @ ''/'') = s"
  by (simp add: strip_trailing_slash_def)

lemma strip_trailing_slash_none:
  "\<not> suffix ''/'' s \<Longrightarrow> strip_trailing_slash s = s"
  by (cases s rule: rev_cases) (auto simp: strip_trailing_slash_def suffix_def)

text \<open>
  C9. Construction from a configuration removes the final slash of a base address that
  ends in one, and nothing more (a second slash before it stays); a base address that
  does not end in a slash is kept. The timeout is 10000 when the configuration gives
  none. The default headers are \<open>Content-Type: application/json\<close> overridden by the
  caller's headers: a caller's entry wins for its key, also for \<open>Content-Type\<close>, and
  \<open>Content-Type\<close> is \<open>application/json\<close> when the caller gives no entry for it.
\<close>

theorem C9_construction:
  "BaseClient.baseURL (new_BaseClient (config\<lparr>ClientConfig.baseURL := s @ ''/''\<rparr>)) = s
   \<and> (\<not> suffix ''/'' (ClientConfig.baseURL config) \<longrightarrow>
        BaseClient.baseURL (new_BaseClient config) = ClientConfig.baseURL config)
   \<and> (ClientConfig.timeout config = None \<longrightarrow>
        BaseClient.timeout (new_BaseClient config) = 10000)
   \<and> defaultHeaders (new_BaseClient config) =
        [''Content-Type'' \<mapsto> ''application/json''] ++ spread (ClientConfig.headers config)
   \<and> (\<forall>h k v. ClientConfig.headers config = Some h \<and> h k = Some v \<longrightarrow>
        defaultHeaders (new_BaseClient config) k = Some v)
   \<and> (spread (ClientConfig.headers config) ''Content-Type'' = None \<longrightarrow>
        defaultHeaders (new_BaseClient config) ''Content-Type'' = Some ''application/json'')"
  by (simp add: new_BaseClient_def strip_trailing_slash_snoc strip_trailing_slash_none
      or_default_def spread_def map_add_def)

theorem C9_construction_witness:
  "\<not> suffix ''/'' ''http://localhost:3000/api''
   \<and> BaseClient.baseURL (new_BaseClient \<lparr>ClientConfig.baseURL = ''http://localhost:3000/api/'', ClientConfig.timeout = None,
         ClientConfig.headers = Some [''X-Custom-Header'' \<mapsto> ''custom-value'']\<rparr>) = ''http://localhost:3000/api''
   \<and> BaseClient.baseURL (new_BaseClient \<lparr>ClientConfig.baseURL = ''http://localhost:3000/api'', ClientConfig.timeout = None,
         ClientConfig.headers = Some [''X-Custom-Header'' \<mapsto> ''custom-value'']\<rparr>) = ''http://localhost:3000/api''
   \<and> BaseClient.timeout (new_BaseClient \<lparr>ClientConfig.baseURL = ''http://localhost:3000/api'', ClientConfig.timeout = None,
         ClientConfig.headers = Some [''X-Custom-Header'' \<mapsto> ''custom-value'']\<rparr>) = 10000
   \<and> defaultHeaders (new_BaseClient \<lparr>ClientConfig.baseURL = ''http://localhost:3000/api'', ClientConfig.timeout = None,
         ClientConfig.headers = Some [''X-Custom-Header'' \<mapsto> ''custom-value'']\<rparr>) ''X-Custom-Header'' = Some ''custom-value''
   \<and> defaultHeaders (new_BaseClient \<lparr>ClientConfig.baseURL = ''http://localhost:3000/api'', ClientConfig.timeout = None,
         ClientConfig.headers = Some [''X-Custom-Header'' \<mapsto> ''custom-value'']\<rparr>) ''Content-Type'' = Some ''application/json''"
  using C9_construction [where config = "\<lparr>ClientConfig.baseURL = ''http://localhost:3000/api'', ClientConfig.timeout = None,
         ClientConfig.headers = Some [''X-Custom-Header'' \<mapsto> ''custom-value'']\<rparr>" and s = "''http://localhost:3000/api''"]
  by (simp add: suffix_def spread_def)

section \<open>Falsy request bodies\<close>

lemma falsy_body_text: "\<not> ToBoolean b \<Longrightarrow> body_text b = Inr None"
  by (simp add: body_text_def)

lemma truthy_body_text: "ToBoolean b \<Longrightarrow> body_text b = JSON_stringify b"
  by (simp add: body_text_def)

lemma verb_calls:
  "fetch_calls (snd (request c env endpoint (verb_init m t options))) \<noteq> []"
  "set (fetch_calls (snd (request c env endpoint (verb_init m t options)))) =
     {fetch_call c endpoint (verb_init m t options)}"
  "fetch_body (fetch_call c endpoint (verb_init m t options)) = t"
  "fetch_method (fetch_call c endpoint (verb_init m t options)) = Some m"
  by (simp_all add: request_calls request_calls_nonempty fetch_call_def verb_init_def)

text \<open>
  C10, as the code has it. A body argument of \<open>post\<close>, \<open>patch\<close> or \<open>put\<close> is handed
  to \<open>JSON.stringify\<close> only when it is truthy. For a falsy argument each of the three
  methods makes its request: at least one call of \<open>fetch\<close> goes out, every call is the
  call of that method with no body, and the whole outcome is the one of the call with
  the body left out. The values \<open>0\<close>, the empty string, \<open>false\<close>, \<open>NaN\<close> and
  \<open>null\<close> are falsy, while \<open>JSON.stringify\<close> would have printed them as \<open>0\<close>,
  \<open>""\<close>, \<open>false\<close>, \<open>null\<close> and \<open>null\<close>. For a truthy argument every call carries
  exactly what \<open>JSON.stringify\<close> returned, text or \<open>undefined\<close>, and a throw of
  \<open>JSON.stringify\<close> ends the method before any call of \<open>fetch\<close>.
\<close>

theorem C10_falsy_body_dropped:
  "(\<not> ToBoolean b \<longrightarrow>
      fetch_calls (snd (post c env endpoint b options)) \<noteq> []
      \<and> set (fetch_calls (snd (post c env endpoint b options))) =
          {fetch_call c endpoint (verb_init ''POST'' None options)}
      \<and> fetch_calls (snd (patch c env endpoint b options)) \<noteq> []
      \<and> set (fetch_calls (snd (patch c env endpoint b options))) =
          {fetch_call c endpoint (verb_init ''PATCH'' None options)}
      \<and> fetch_calls (snd (put c env endpoint b options)) \<noteq> []
      \<and> set (fetch_calls (snd (put c env endpoint b options))) =
          {fetch_call c endpoint (verb_init ''PUT'' None options)}
      \<and> (\<forall>m. fetch_body (fetch_call c endpoint (verb_init m None options)) = None
              \<and> fetch_method (fetch_call c endpoint (verb_init m None options)) = Some m)
      \<and> post c env endpoint b options = post c env endpoint omitted_body options
      \<and> patch c env endpoint b options = patch c env endpoint omitted_body options
      \<and> put c env endpoint b options = put c env endpoint omitted_body options)
   \<and> (ToBoolean b \<and> JSON_stringify b = Inr t \<longrightarrow>
        fetch_calls (snd (post c env endpoint b options)) \<noteq> []
        \<and> set (fetch_calls (snd (post c env endpoint b options))) =
            {fetch_call c endpoint (verb_init ''POST'' t options)}
        \<and> fetch_calls (snd (patch c env endpoint b options)) \<noteq> []
        \<and> set (fetch_calls (snd (patch c env endpoint b options))) =
            {fetch_call c endpoint (verb_init ''PATCH'' t options)}
        \<and> fetch_calls (snd (put c env endpoint b options)) \<noteq> []
        \<and> set (fetch_calls (snd (put c env endpoint b options))) =
            {fetch_call c endpoint (verb_init ''PUT'' t options)}
        \<and> (\<forall>m. fetch_body (fetch_call c endpoint (verb_init m t options)) = t))
   \<and> (ToBoolean b \<and> JSON_stringify b = Inl error \<longrightarrow>
        post c env endpoint b options = (Inl error, [])
        \<and> patch c env endpoint b options = (Inl error, [])
        \<and> put c env endpoint b options = (Inl error, []))
   \<and> \<not> ToBoolean omitted_body
   \<and> \<not> ToBoolean zero_body \<and> JSON_stringify zero_body = Inr (Some ''0'')
   \<and> \<not> ToBoolean empty_string_body \<and> JSON_stringify empty_string_body = Inr (Some [CHR 0x22, CHR 0x22])
   \<and> \<not> ToBoolean false_body \<and> JSON_stringify false_body = Inr (Some ''false'')
   \<and> \<not> ToBoolean NaN_body \<and> JSON_stringify NaN_body = Inr (Some ''null'')
   \<and> \<not> ToBoolean null_body \<and> JSON_stringify null_body = Inr (Some ''null'')"
proof (intro conjI impI)
  assume f: "\<not> ToBoolean b"
  have o: "body_text omitted_body = Inr None"
    by (simp add: body_text_def omitted_body_def)
  note bt = falsy_body_text [OF f]
  show "fetch_calls (snd (post c env endpoint b options)) \<noteq> []"
    by (simp add: body_verb_events [OF bt] verb_calls)
  show "set (fetch_calls (snd (post c env endpoint b options))) =
          {fetch_call c endpoint (verb_init ''POST'' None options)}"
    by (simp add: body_verb_events [OF bt] verb_calls)
  show "fetch_calls (snd (patch c env endpoint b options)) \<noteq> []"
    by (simp add: body_verb_events [OF bt] verb_calls)
  show "set (fetch_calls (snd (patch c env endpoint b options))) =
          {fetch_call c endpoint (verb_init ''PATCH'' None options)}"
    by (simp add: body_verb_events [OF bt] verb_calls)
  show "fetch_calls (snd (put c env endpoint b options)) \<noteq> []"
    by (simp add: body_verb_events [OF bt] verb_calls)
  show "set (fetch_calls (snd (put c env endpoint b options))) =
          {fetch_call c endpoint (verb_init ''PUT'' None options)}"
    by (simp add: body_verb_events [OF bt] verb_calls)
  show "\<forall>m. fetch_body (fetch_call c endpoint (verb_init m None options)) = None
              \<and> fetch_method (fetch_call c endpoint (verb_init m None options)) = Some m"
    by (simp add: verb_calls)
  show "post c env endpoint b options = post c env endpoint omitted_body options"
    by (simp add: post_def bt o)
  show "patch c env endpoint b options = patch c env endpoint omitted_body options"
    by (simp add: patch_def bt o)
  show "put c env endpoint b options = put c env endpoint omitted_body options"
    by (simp add: put_def bt o)
next
  assume "ToBoolean b \<and> JSON_stringify b = Inr t"
  then have bt: "body_text b = Inr t"
    by (simp add: body_text_def)
  show "fetch_calls (snd (post c env endpoint b options)) \<noteq> []"
    by (simp add: body_verb_events [OF bt] verb_calls)
  show "set (fetch_calls (snd (post c env endpoint b options))) =
            {fetch_call c endpoint (verb_init ''POST'' t options)}"
    by (simp add: body_verb_events [OF bt] verb_calls)
  show "fetch_calls (snd (patch c env endpoint b options)) \<noteq> []"
    by (simp add: body_verb_events [OF bt] verb_calls)
  show "set (fetch_calls (snd (patch c env endpoint b options))) =
            {fetch_call c endpoint (verb_init ''PATCH'' t options)}"
    by (simp add: body_verb_events [OF bt] verb_calls)
  show "fetch_calls (snd (put c env endpoint b options)) \<noteq> []"
    by (simp add: body_verb_events [OF bt] verb_calls)
  show "set (fetch_calls (snd (put c env endpoint b options))) =
            {fetch_call c endpoint (verb_init ''PUT'' t options)}"
    by (simp add: body_verb_events [OF bt] verb_calls)
  show "\<forall>m. fetch_body (fetch_call c endpoint (verb_init m t options)) = t"
    by (simp add: verb_calls)
next
  assume "ToBoolean b \<and> JSON_stringify b = Inl error"
  then have bt: "body_text b = Inl error"
    by (simp add: body_text_def)
  show "post c env endpoint b options = (Inl error, [])"
    by (rule body_verb_throws [OF bt])
  show "patch c env endpoint b options = (Inl error, [])"
    by (rule body_verb_throws [OF bt])
  show "put c env endpoint b options = (Inl error, [])"
    by (rule body_verb_throws [OF bt])
qed (simp_all add: omitted_body_def zero_body_def empty_string_body_def false_body_def
      NaN_body_def null_body_def data_body_def)

theorem C10_falsy_body_dropped_witness:
  "\<not> ToBoolean zero_body
   \<and> fetch_calls (snd (post (new_BaseClient TEST_CONFIG)
        (under_vitest (\<lambda>n. Resolved (json_response 200 (JObject [(''message'', JString ''success'')]))))
        ''/counter'' zero_body None)) \<noteq> []
   \<and> set (fetch_calls (snd (post (new_BaseClient TEST_CONFIG)
        (under_vitest (\<lambda>n. Resolved (json_response 200 (JObject [(''message'', JString ''success'')]))))
        ''/counter'' zero_body None)))
     = {fetch_call (new_BaseClient TEST_CONFIG) ''/counter'' (verb_init ''POST'' None None)}
   \<and> fetch_calls (snd (patch (new_BaseClient TEST_CONFIG)
        (under_vitest (\<lambda>n. Resolved (json_response 200 (JObject [(''message'', JString ''success'')]))))
        ''/counter'' zero_body None)) \<noteq> []
   \<and> set (fetch_calls (snd (patch (new_BaseClient TEST_CONFIG)
        (under_vitest (\<lambda>n. Resolved (json_response 200 (JObject [(''message'', JString ''success'')]))))
        ''/counter'' zero_body None)))
     = {fetch_call (new_BaseClient TEST_CONFIG) ''/counter'' (verb_init ''PATCH'' None None)}
   \<and> fetch_calls (snd (put (new_BaseClient TEST_CONFIG)
        (under_vitest (\<lambda>n. Resolved (json_response 200 (JObject [(''message'', JString ''success'')]))))
        ''/counter'' zero_body None)) \<noteq> []
   \<and> set (fetch_calls (snd (put (new_BaseClient TEST_CONFIG)
        (under_vitest (\<lambda>n. Resolved (json_response 200 (JObject [(''message'', JString ''success'')]))))
        ''/counter'' zero_body None)))
     = {fetch_call (new_BaseClient TEST_CONFIG) ''/counter'' (verb_init ''PUT'' None None)}
   \<and> fetch_body (fetch_call (new_BaseClient TEST_CONFIG) ''/counter'' (verb_init ''PUT'' None None)) = None
   \<and> ToBoolean true_body
   \<and> set (fetch_calls (snd (put (new_BaseClient TEST_CONFIG)
        (under_vitest (\<lambda>n. Resolved (json_response 200 (JObject [(''message'', JString ''success'')]))))
        ''/flag'' true_body None)))
     = {fetch_call (new_BaseClient TEST_CONFIG) ''/flag'' (verb_init ''PUT'' (Some ''true'') None)}
   \<and> fetch_body (fetch_call (new_BaseClient TEST_CONFIG) ''/flag'' (verb_init ''PUT'' (Some ''true'') None))
     = Some ''true''
   \<and> ToBoolean bigint_body
   \<and> patch (new_BaseClient TEST_CONFIG)
        (under_vitest (\<lambda>n. Resolved (json_response 200 (JObject [(''message'', JString ''success'')]))))
        ''/counter'' bigint_body None
     = (Inl (Error ''TypeError'' ''Do not know how to serialize a BigInt''), [])"
proof -
  let ?c = "new_BaseClient TEST_CONFIG"
  let ?env = "under_vitest (\<lambda>n. Resolved (json_response 200 (JObject [(''message'', JString ''success'')])))"
  have z: "\<not> ToBoolean zero_body"
    by (simp add: zero_body_def data_body_def)
  have t: "ToBoolean true_body \<and> JSON_stringify true_body = Inr (Some ''true'')"
    by (simp add: true_body_def data_body_def)
  have g: "ToBoolean bigint_body \<and> JSON_stringify bigint_body =
             Inl (Error ''TypeError'' ''Do not know how to serialize a BigInt'')"
    by (simp add: bigint_body_def)
  note zero = C10_falsy_body_dropped [where b = zero_body and c = ?c and env = ?env
      and endpoint = "''/counter''" and options = None and t = None
      and error = "Error ''TypeError'' ''Do not know how to serialize a BigInt''",
      THEN conjunct1, THEN mp, OF z]
  note true = C10_falsy_body_dropped [where b = true_body and c = ?c and env = ?env
      and endpoint = "''/flag''" and options = None and t = "Some ''true''"
      and error = "Error ''TypeError'' ''Do not know how to serialize a BigInt''",
      THEN conjunct2, THEN conjunct1, THEN mp, OF t]
  note big = C10_falsy_body_dropped [where b = bigint_body and c = ?c and env = ?env
      and endpoint = "''/counter''" and options = None and t = None
      and error = "Error ''TypeError'' ''Do not know how to serialize a BigInt''",
      THEN conjunct2, THEN conjunct2, THEN conjunct1, THEN mp, OF g]
  show ?thesis
    using z t g zero true big by blast
qed

text \<open>
  The claim as written has the omitted and the falsy bodies as the only ones that go out
  without body text. A symbol and a function are truthy, \<open>JSON.stringify\<close> returns
  \<open>undefined\<close> for them, and the request goes out with no body all the same.
\<close>

theorem C10_counterexample:
  "ToBoolean symbol_body
   \<and> map fetch_body (fetch_calls (snd (post (new_BaseClient TEST_CONFIG)
        (under_vitest (\<lambda>n. Resolved (json_response 200 (JObject [(''message'', JString ''success'')]))))
        ''/test'' symbol_body None)))
     = [None]
   \<and> ToBoolean function_body
   \<and> map fetch_body (fetch_calls (snd (put (new_BaseClient TEST_CONFIG)
        (under_vitest (\<lambda>n. Resolved (json_response 200 (JObject [(''message'', JString ''success'')]))))
        ''/test'' function_body None)))
     = [None]"
  by (simp add: post_def put_def body_text_def symbol_body_def function_body_def snd_return_data
      request_def isTestEnv_def under_vitest_def fetch_call_def verb_init_def)

end
